theory Spec2Isabelle
  imports Main "HOL-Library.AList" "HOL-Library.Char_ord" "HOL-Library.List_Lexorder"
    "HOL-Library.Multiset"
begin

section \<open>Python strings\<close>

text \<open>
  A Python \<open>str\<close> is modelled as a \<open>string\<close> whose characters are the code points
  below 256. \<open>isspace\<close> is \<open>str.isspace\<close> on that range, which is also the class
  \<open>\s\<close> of the \<open>re\<close> module for \<open>str\<close> patterns and the set that \<open>str.strip()\<close> and
  \<open>int()\<close> remove.
\<close>

definition isspace :: "char \<Rightarrow> bool" where
  "isspace c =
     (let n = (of_char c :: nat)
      in (9 \<le> n \<and> n \<le> 13) \<or> (28 \<le> n \<and> n \<le> 32) \<or> n = 133 \<or> n = 160)"

definition newline :: char where
  "newline = CHR 0x0A"

definition strip_chars :: "(char \<Rightarrow> bool) \<Rightarrow> string \<Rightarrow> string" where
  "strip_chars P s = rev (dropWhile P (rev (dropWhile P s)))"

definition strip :: "string \<Rightarrow> string" where
  "strip s = strip_chars isspace s"

text \<open>\<open>s.strip('"\'')\<close>: both quote characters are removed from both ends.\<close>

definition is_quote :: "char \<Rightarrow> bool" where
  "is_quote c = (c = CHR 0x22 \<or> c = CHR 0x27)"

definition strip_quotes :: "string \<Rightarrow> string" where
  "strip_quotes s = strip_chars is_quote s"

definition startswith :: "string \<Rightarrow> string \<Rightarrow> bool" where
  "startswith pre s = (take (length pre) s = pre)"

definition endswith :: "string \<Rightarrow> string \<Rightarrow> bool" where
  "endswith suf s = (length suf \<le> length s \<and> drop (length s - length suf) s = suf)"

text \<open>\<open>str.lower()\<close> on the code points below 256.\<close>

definition lower_char :: "char \<Rightarrow> char" where
  "lower_char c =
     (let n = (of_char c :: nat)
      in if (65 \<le> n \<and> n \<le> 90) \<or> (192 \<le> n \<and> n \<le> 222 \<and> n \<noteq> 215)
         then char_of (n + 32) else c)"

definition lower :: "string \<Rightarrow> string" where
  "lower s = map lower_char s"

text \<open>\<open>s.split(sep)\<close> for a one-character separator: every occurrence splits.\<close>

fun split_on :: "char \<Rightarrow> string \<Rightarrow> string list" where
  "split_on sep [] = [[]]"
| "split_on sep (c # cs) =
     (if c = sep then [] # split_on sep cs
      else (case split_on sep cs of [] \<Rightarrow> [[c]] | x # xs \<Rightarrow> (c # x) # xs))"

text \<open>\<open>needle in s\<close> for two strings.\<close>

fun contains_sub :: "string \<Rightarrow> string \<Rightarrow> bool" where
  "contains_sub needle [] = (needle = [])"
| "contains_sub needle (c # cs) = (startswith needle (c # cs) \<or> contains_sub needle cs)"

text \<open>
  \<open>int(s)\<close> on a string: surrounding whitespace is removed, one sign is allowed, and
  the digits may be separated by single underscores. \<open>None\<close> stands for the
  \<open>ValueError\<close> of a string that is not a number, or of one with more digits than
  the interpreter converts (\<open>sys.int_info.default_max_str_digits\<close>; the sign and the
  underscores do not count).
\<close>

definition max_str_digits :: nat where
  "max_str_digits = 4300"

definition is_digit :: "char \<Rightarrow> bool" where
  "is_digit c = (let n = (of_char c :: nat) in 48 \<le> n \<and> n \<le> 57)"

definition digit_val :: "char \<Rightarrow> int" where
  "digit_val c = (of_char c :: int) - 48"

fun int_digits :: "int \<Rightarrow> string \<Rightarrow> int option" where
  "int_digits acc [] = Some acc"
| "int_digits acc [c] = (if is_digit c then Some (10 * acc + digit_val c) else None)"
| "int_digits acc (c # d # ds) =
     (if c = CHR ''_''
      then (if is_digit d then int_digits (10 * acc + digit_val d) ds else None)
      else if is_digit c then int_digits (10 * acc + digit_val c) (d # ds)
      else None)"

definition unsigned_int :: "string \<Rightarrow> int option" where
  "unsigned_int s =
     (if max_str_digits < length (filter is_digit s) then None
      else (case s of [] \<Rightarrow> None
            | c # cs \<Rightarrow> if is_digit c then int_digits (digit_val c) cs else None))"

definition py_int :: "string \<Rightarrow> int option" where
  "py_int s =
     (case strip s of
        [] \<Rightarrow> None
      | c # cs \<Rightarrow>
          if c = CHR ''-'' then map_option uminus (unsigned_int cs)
          else if c = CHR ''+'' then unsigned_int cs
          else unsigned_int (c # cs))"

section \<open>Python values and exceptions\<close>

text \<open>
  The values that the script handles: what \<open>json.load\<close> returns, what the frontmatter
  parser builds and what \<open>json.dump\<close> writes. A dictionary keeps its insertion order,
  so it is an association list, assigned to with \<open>AList.update\<close>. A float is
  identified by the text that \<open>json.dump\<close> writes for it.
\<close>

datatype pyval =
    PNone
  | PBool bool
  | PInt int
  | PFloat string
  | PStr string
  | PList "pyval list"
  | PDict "(string \<times> pyval) list"

type_synonym pydict = "(string \<times> pyval) list"

fun truthy :: "pyval \<Rightarrow> bool" where
  "truthy PNone = False"
| "truthy (PBool b) = b"
| "truthy (PInt i) = (i \<noteq> 0)"
| "truthy (PFloat r) = (r \<noteq> ''0.0'' \<and> r \<noteq> ''-0.0'')"
| "truthy (PStr s) = (s \<noteq> [])"
| "truthy (PList xs) = (xs \<noteq> [])"
| "truthy (PDict kvs) = (kvs \<noteq> [])"

fun is_list :: "pyval \<Rightarrow> bool" where
  "is_list (PList xs) = True"
| "is_list v = False"

datatype py_exn =
    OSError
  | FileNotFoundError
  | PermissionError
  | ValueError
  | UnicodeDecodeError
  | JSONDecodeError
  | CalledProcessError
  | TypeError
  | AttributeError
  | KeyError
  | OverflowError

text \<open>
  The class hierarchy that an \<open>except\<close> clause tests. \<open>IOError\<close> is another name of
  \<open>OSError\<close>.
\<close>

fun exn_isa :: "py_exn \<Rightarrow> py_exn \<Rightarrow> bool" where
  "exn_isa FileNotFoundError OSError = True"
| "exn_isa PermissionError OSError = True"
| "exn_isa UnicodeDecodeError ValueError = True"
| "exn_isa JSONDecodeError ValueError = True"
| "exn_isa e c = (e = c)"

definition IOError :: py_exn where
  "IOError = OSError"

text \<open>\<open>try: body  except (classes): return dflt\<close>.\<close>

definition try_except :: "py_exn + 'a \<Rightarrow> py_exn list \<Rightarrow> 'a \<Rightarrow> py_exn + 'a" where
  "try_except body classes dflt =
     (case body of
        Inl e \<Rightarrow> if \<exists>c \<in> set classes. exn_isa e c then Inr dflt else Inl e
      | Inr v \<Rightarrow> Inr v)"

text \<open>\<open>k in v\<close> and \<open>v[k]\<close> for a string \<open>k\<close>, as the script applies them to loaded JSON.\<close>

fun py_contains :: "string \<Rightarrow> pyval \<Rightarrow> py_exn + bool" where
  "py_contains k (PDict kvs) = Inr (k \<in> fst ` set kvs)"
| "py_contains k (PList xs) = Inr (PStr k \<in> set xs)"
| "py_contains k (PStr s) = Inr (contains_sub k s)"
| "py_contains k v = Inl TypeError"

fun py_getitem :: "pyval \<Rightarrow> string \<Rightarrow> py_exn + pyval" where
  "py_getitem (PDict kvs) k = (case map_of kvs k of Some v \<Rightarrow> Inr v | None \<Rightarrow> Inl KeyError)"
| "py_getitem v k = Inl TypeError"

section \<open>The world the script runs in\<close>

text \<open>
  A path is the list of its components below the content directory; the empty list is
  the content directory itself. Everything the script asks of the file system, of
  \<open>git\<close> and of the \<open>datetime\<close> module is a field of the world.
\<close>

type_synonym path = "string list"

datatype proc_outcome =
    LaunchError py_exn
  | Completed int string

record world =
  root_exists :: bool
  rglob :: "path list"
  is_file :: "path \<Rightarrow> bool"
  is_dir :: "path \<Rightarrow> bool"
  file_exists :: "path \<Rightarrow> bool"
  st_size :: "path \<Rightarrow> py_exn + nat"
  git_log :: "path \<Rightarrow> proc_outcome"
  read_text :: "path \<Rightarrow> py_exn + string"
  json_load :: "path \<Rightarrow> py_exn + pyval"
  strptime_timestamp :: "string \<Rightarrow> string \<Rightarrow> py_exn + int"

text \<open>
  \<open>git_log w p\<close> is what happens when \<open>git log -1 --format=%ct -- p\<close> is started:
  \<open>LaunchError e\<close> when \<open>subprocess.run\<close> raises \<open>e\<close> without a finished process
  (\<open>FileNotFoundError\<close> when there is no \<open>git\<close> executable), \<open>Completed rc out\<close> when
  the process exits with status \<open>rc\<close> and standard output \<open>out\<close>.
  \<open>read_text w p\<close> is \<open>open(p, 'r', encoding='utf-8')\<close> followed by \<open>f.read()\<close>;
  \<open>json_load w p\<close> is the same \<open>open\<close> followed by \<open>json.load(f)\<close>.
  \<open>strptime_timestamp w s fmt\<close> is \<open>int(datetime.strptime(s, fmt).timestamp())\<close>.
\<close>

section \<open>Paths\<close>

definition CONTENT_DIR :: string where
  "CONTENT_DIR = ''~''"

definition EXTENSIONS :: "string set" where
  "EXTENSIONS = {''.md'', ''.pdf'', ''.png'', ''.jpg'', ''.jpeg'', ''.gif'', ''.webp'',
                 ''.svg'', ''.link'', ''.enc''}"

text \<open>\<open>Path.name\<close>: the last component; for the content directory, its own name.\<close>

definition path_name :: "path \<Rightarrow> string" where
  "path_name p = (if p = [] then CONTENT_DIR else last p)"

text \<open>\<open>s.rfind('.')\<close>, with \<open>None\<close> for \<open>-1\<close>.\<close>

fun rfind_dot :: "string \<Rightarrow> nat option" where
  "rfind_dot [] = None"
| "rfind_dot (c # cs) =
     (case rfind_dot cs of
        Some i \<Rightarrow> Some (Suc i)
      | None \<Rightarrow> if c = CHR ''.'' then Some 0 else None)"

text \<open>
  \<open>Path.suffix\<close> and \<open>Path.stem\<close> of a name: the last dot splits the name unless it
  is the first or the last character.
\<close>

definition suffix_of :: "string \<Rightarrow> string" where
  "suffix_of name =
     (case rfind_dot name of
        Some i \<Rightarrow> if 0 < i \<and> i < length name - 1 then drop i name else []
      | None \<Rightarrow> [])"

definition stem_of :: "string \<Rightarrow> string" where
  "stem_of name =
     (case rfind_dot name of
        Some i \<Rightarrow> if 0 < i \<and> i < length name - 1 then take i name else name
      | None \<Rightarrow> name)"

text \<open>\<open>'/'.join(parts)\<close>.\<close>

fun join_slash :: "string list \<Rightarrow> string" where
  "join_slash [] = []"
| "join_slash [x] = x"
| "join_slash (x # y # ys) = x @ ''/'' @ join_slash (y # ys)"

text \<open>\<open>str(p.relative_to(content_dir))\<close>: the content directory itself prints as a dot.\<close>

definition relative_str :: "path \<Rightarrow> string" where
  "relative_str p = (if p = [] then ''.'' else join_slash p)"

text \<open>
  \<open>p.with_suffix(p.suffix + '.keys')\<close>. The script calls it only where the suffix of
  \<open>p\<close> is not empty, so the new suffix is a valid one.
\<close>

definition with_suffix :: "string \<Rightarrow> string \<Rightarrow> string" where
  "with_suffix name suf =
     (if suffix_of name = [] then name @ suf
      else take (length name - length (suffix_of name)) name @ suf)"

definition keys_path :: "path \<Rightarrow> path" where
  "keys_path p =
     butlast p @ [with_suffix (path_name p) (suffix_of (path_name p) @ ''.keys'')]"

definition meta_path :: "path \<Rightarrow> path" where
  "meta_path d = d @ [''.meta.json'']"

section \<open>The frontmatter parser\<close>

text \<open>
  The two regular expressions of the script are modelled by the search that the
  backtracking matcher of \<open>re\<close> performs, in its order of preference.

  \<open>ws_nl_rests s\<close> lists what can follow a match of \<open>\s*\n\<close> at the start of \<open>s\<close>,
  the longest match first (\<open>\s*\<close> is greedy). \<open>ws_plus_rests s\<close> does the same for
  \<open>\s+\<close>.
\<close>

fun ws_nl_rests :: "string \<Rightarrow> string list" where
  "ws_nl_rests [] = []"
| "ws_nl_rests (c # cs) =
     (if isspace c then ws_nl_rests cs @ (if c = newline then [cs] else []) else [])"

fun ws_plus_rests :: "string \<Rightarrow> string list" where
  "ws_plus_rests [] = []"
| "ws_plus_rests (c # cs) = (if isspace c then ws_plus_rests cs @ [cs] else [])"

fun first_some :: "'a option list \<Rightarrow> 'a option" where
  "first_some [] = None"
| "first_some (None # xs) = first_some xs"
| "first_some (Some x # xs) = Some x"

text \<open>
  \<open>(.*?)\n---\s*\n\<close> under \<open>re.DOTALL\<close>: the group is lazy, so the first position
  where the closing delimiter matches ends it. The result is the group and what follows
  the whole match.
\<close>

fun lazy_close :: "string \<Rightarrow> string \<Rightarrow> (string \<times> string) option" where
  "lazy_close acc [] = None"
| "lazy_close acc (c # cs) =
     (if startswith (newline # ''---'') (c # cs) \<and> ws_nl_rests (drop 4 (c # cs)) \<noteq> []
      then Some (acc, hd (ws_nl_rests (drop 4 (c # cs))))
      else lazy_close (acc @ [c]) cs)"

text \<open>\<open>re.match(r'^---\s*\n(.*?)\n---\s*\n', content, re.DOTALL)\<close>.\<close>

definition frontmatter_match :: "string \<Rightarrow> (string \<times> string) option" where
  "frontmatter_match content =
     (if startswith ''---'' content
      then first_some (map (lazy_close []) (ws_nl_rests (drop 3 content)))
      else None)"

text \<open>\<open>value[1:-1]\<close>.\<close>

definition slice_inner :: "string \<Rightarrow> string" where
  "slice_inner s = butlast (tl s)"

text \<open>The value of a \<open>key: value\<close> line, in the order of the script's tests.\<close>

definition parse_value :: "string \<Rightarrow> pyval" where
  "parse_value v =
     (if startswith ''['' v \<and> endswith '']'' v
      then PList (map (\<lambda>item. PStr (strip_quotes (strip item)))
                    (filter (\<lambda>item. strip item \<noteq> []) (split_on CHR '','' (slice_inner v))))
      else if startswith [CHR 0x22] v \<and> endswith [CHR 0x22] v then PStr (slice_inner v)
      else if startswith [CHR 0x27] v \<and> endswith [CHR 0x27] v then PStr (slice_inner v)
      else if lower v = ''true'' then PBool True
      else if lower v = ''false'' then PBool False
      else if v = [] then PList []
      else PStr v)"

text \<open>One turn of the loop over the lines of the block.\<close>

definition fm_line :: "pydict \<Rightarrow> string \<Rightarrow> pydict" where
  "fm_line frontmatter raw =
     (let line = strip raw
      in if line = [] \<or> startswith ''#'' line then frontmatter
         else if CHR '':'' \<in> set line
         then (let key = strip (takeWhile (\<lambda>c. c \<noteq> CHR '':'') line);
                   v = strip (tl (dropWhile (\<lambda>c. c \<noteq> CHR '':'') line))
               in AList.update key (parse_value v) frontmatter)
         else if startswith ''- '' line \<and> frontmatter \<noteq> []
         then (let last_key = fst (last frontmatter)
               in case map_of frontmatter last_key of
                    Some (PList xs) \<Rightarrow>
                      AList.update last_key
                        (PList (xs @ [PStr (strip_quotes (strip (drop 2 line)))])) frontmatter
                  | _ \<Rightarrow> frontmatter)
         else frontmatter)"

definition parse_frontmatter :: "string \<Rightarrow> pydict" where
  "parse_frontmatter content =
     (case frontmatter_match content of
        None \<Rightarrow> []
      | Some (yaml_content, rest) \<Rightarrow> foldl fm_line [] (split_on newline yaml_content))"

section \<open>The first heading\<close>

text \<open>
  \<open>(.+)$\<close> under \<open>re.MULTILINE\<close>: the greedy group takes the rest of the line, which
  must not be empty.
\<close>

definition dot_plus_eol :: "string \<Rightarrow> string option" where
  "dot_plus_eol s =
     (case takeWhile (\<lambda>c. c \<noteq> newline) s of [] \<Rightarrow> None | c # cs \<Rightarrow> Some (c # cs))"

text \<open>\<open>#\s+(.+)$\<close> at one position.\<close>

definition heading_at :: "string \<Rightarrow> string option" where
  "heading_at s =
     (case s of
        [] \<Rightarrow> None
      | c # cs \<Rightarrow> if c = CHR ''#'' then first_some (map dot_plus_eol (ws_plus_rests cs)) else None)"

text \<open>
  \<open>re.search(r'^#\s+(.+)$', s, re.MULTILINE)\<close>: the first position at the start of a
  line where the pattern matches. The flag says whether the current position starts a
  line.
\<close>

fun heading_search :: "bool \<Rightarrow> string \<Rightarrow> string option" where
  "heading_search at_start [] = None"
| "heading_search at_start (c # cs) =
     (case (if at_start then heading_at (c # cs) else None) of
        Some g \<Rightarrow> Some g
      | None \<Rightarrow> heading_search (c = newline) cs)"

definition extract_title_from_heading :: "string \<Rightarrow> string option" where
  "extract_title_from_heading content =
     (let content_without_fm =
            (case frontmatter_match content of None \<Rightarrow> content | Some (g, rest) \<Rightarrow> rest)
      in map_option strip (heading_search True content_without_fm))"

section \<open>Dates\<close>

definition formats :: "string list" where
  "formats = [''%Y-%m-%d'', ''%Y-%m-%dT%H:%M:%S'', ''%Y/%m/%d'']"

text \<open>The loop over the formats: a \<open>ValueError\<close> moves on to the next format.\<close>

fun try_formats :: "world \<Rightarrow> string \<Rightarrow> string list \<Rightarrow> py_exn + pyval" where
  "try_formats w s [] = Inr PNone"
| "try_formats w s (fmt # fmts) =
     (case strptime_timestamp w s fmt of
        Inr t \<Rightarrow> Inr (PInt t)
      | Inl e \<Rightarrow> if exn_isa e ValueError then try_formats w s fmts else Inl e)"

text \<open>\<open>isinstance(value, int)\<close> holds of a \<open>bool\<close> too.\<close>

fun parse_date_to_timestamp :: "world \<Rightarrow> pyval \<Rightarrow> py_exn + pyval" where
  "parse_date_to_timestamp w (PInt i) = Inr (PInt i)"
| "parse_date_to_timestamp w (PBool b) = Inr (PBool b)"
| "parse_date_to_timestamp w (PStr s) = try_formats w s formats"
| "parse_date_to_timestamp w v = Inr PNone"

section \<open>The timestamp resolver\<close>

text \<open>\<open>subprocess.run(..., check=True)\<close>: a non-zero exit status raises.\<close>

definition subprocess_run_check :: "proc_outcome \<Rightarrow> py_exn + string" where
  "subprocess_run_check r =
     (case r of
        LaunchError e \<Rightarrow> Inl e
      | Completed rc out \<Rightarrow> if rc \<noteq> 0 then Inl CalledProcessError else Inr out)"

definition get_git_modified_time :: "world \<Rightarrow> path \<Rightarrow> py_exn + pyval" where
  "get_git_modified_time w filepath =
     try_except
       (case subprocess_run_check (git_log w filepath) of
          Inl e \<Rightarrow> Inl e
        | Inr out \<Rightarrow>
            if strip out \<noteq> []
            then (case py_int (strip out) of
                    None \<Rightarrow> Inl ValueError
                  | Some n \<Rightarrow> Inr (PInt n))
            else Inr PNone)
       [CalledProcessError, ValueError] PNone"

section \<open>Sidecar files\<close>

definition load_directory_meta :: "world \<Rightarrow> path \<Rightarrow> py_exn + pyval" where
  "load_directory_meta w dir_path =
     (if file_exists w (meta_path dir_path)
      then try_except (json_load w (meta_path dir_path)) [JSONDecodeError, IOError] (PDict [])
      else Inr (PDict []))"

definition load_keys_file :: "world \<Rightarrow> path \<Rightarrow> py_exn + pyval" where
  "load_keys_file w filepath =
     (if file_exists w (keys_path filepath)
      then try_except (json_load w (keys_path filepath)) [JSONDecodeError, IOError] PNone
      else Inr PNone)"

section \<open>File entries\<close>

text \<open>\<open>any(part.startswith('.') for part in rel_path.split('/'))\<close>.\<close>

definition is_hidden :: "string \<Rightarrow> bool" where
  "is_hidden rel_path = (\<exists>part \<in> set (split_on CHR ''/'' rel_path). startswith ''.'' part)"

text \<open>
  The branch of a loaded sidecar. Nothing here is inside a \<open>try\<close>: a \<open>TypeError\<close> of
  \<open>in\<close> or of the subscript on a value that is not a dictionary leaves the function.
\<close>

definition apply_field :: "pyval \<Rightarrow> string \<Rightarrow> (pyval \<Rightarrow> bool) \<Rightarrow> pydict \<Rightarrow> py_exn + pydict" where
  "apply_field keys_data k ok target =
     (case py_contains k keys_data of
        Inl e \<Rightarrow> Inl e
      | Inr False \<Rightarrow> Inr target
      | Inr True \<Rightarrow>
          (case py_getitem keys_data k of
             Inl e \<Rightarrow> Inl e
           | Inr v \<Rightarrow> Inr (if ok v then AList.update k v target else target)))"

definition keys_branch :: "pyval \<Rightarrow> pydict \<Rightarrow> py_exn + pydict" where
  "keys_branch keys_data entry =
     (case apply_field keys_data ''title'' (\<lambda>v. True) entry of
        Inl e \<Rightarrow> Inl e
      | Inr entry1 \<Rightarrow>
     (case apply_field keys_data ''tags'' is_list entry1 of
        Inl e \<Rightarrow> Inl e
      | Inr entry2 \<Rightarrow>
     (case apply_field keys_data ''algorithm'' (\<lambda>v. True) [] of
        Inl e \<Rightarrow> Inl e
      | Inr encryption1 \<Rightarrow>
     (case apply_field keys_data ''wrapped_keys'' (\<lambda>v. True) encryption1 of
        Inl e \<Rightarrow> Inl e
      | Inr encryption \<Rightarrow>
          Inr (if encryption \<noteq> []
               then AList.update ''encryption'' (PDict encryption) entry2
               else entry2)))))"

text \<open>
  The body of the \<open>try\<close> of the markdown branch. The entry is assigned to step by
  step, so the body returns the entry as it stands together with the exception that
  ended it, if one did.
\<close>

definition markdown_body :: "world \<Rightarrow> path \<Rightarrow> pydict \<Rightarrow> py_exn option \<times> pydict" where
  "markdown_body w filepath entry =
     (case read_text w filepath of
        Inl e \<Rightarrow> (Some e, entry)
      | Inr content \<Rightarrow>
          (let frontmatter = parse_frontmatter content;
               entry1 =
                 (case map_of frontmatter ''title'' of
                    Some t \<Rightarrow> AList.update ''title'' t entry
                  | None \<Rightarrow>
                      (case extract_title_from_heading content of
                         Some heading_title \<Rightarrow>
                           if heading_title \<noteq> []
                           then AList.update ''title'' (PStr heading_title) entry
                           else entry
                       | None \<Rightarrow> entry));
               entry2 =
                 (case map_of frontmatter ''tags'' of
                    Some v \<Rightarrow> if is_list v then AList.update ''tags'' v entry1 else entry1
                  | None \<Rightarrow> entry1)
           in case map_of frontmatter ''modified'' of
                None \<Rightarrow> (None, entry2)
              | Some v \<Rightarrow>
                  (case parse_date_to_timestamp w v of
                     Inl e \<Rightarrow> (Some e, entry2)
                   | Inr m \<Rightarrow> (None, AList.update ''modified'' m entry2))))"

text \<open>\<open>try: body  except IOError: pass\<close>, followed by \<open>return entry\<close>.\<close>

definition markdown_branch :: "world \<Rightarrow> path \<Rightarrow> pydict \<Rightarrow> py_exn + pydict" where
  "markdown_branch w filepath entry =
     (case markdown_body w filepath entry of
        (None, entry') \<Rightarrow> Inr entry'
      | (Some e, entry') \<Rightarrow> if exn_isa e IOError then Inr entry' else Inl e)"

definition default_entry :: "string \<Rightarrow> nat \<Rightarrow> pyval \<Rightarrow> pydict" where
  "default_entry rel_path sz modified =
     [(''path'', PStr rel_path),
      (''title'', PStr (stem_of (last (split_on CHR ''/'' rel_path)))),
      (''size'', PInt (int sz)),
      (''modified'', modified),
      (''tags'', PList [])]"

definition process_file :: "world \<Rightarrow> path \<Rightarrow> py_exn + pydict option" where
  "process_file w filepath =
     (if lower (suffix_of (path_name filepath)) = ''.keys'' then Inr None
      else if lower (suffix_of (path_name filepath)) \<notin> EXTENSIONS then Inr None
      else
        (let rel_path = relative_str filepath
         in if is_hidden rel_path then Inr None
            else
              (case st_size w filepath of
                 Inl e \<Rightarrow> Inl e
               | Inr sz \<Rightarrow>
              (case get_git_modified_time w filepath of
                 Inl e \<Rightarrow> Inl e
               | Inr modified \<Rightarrow>
              (case load_keys_file w filepath of
                 Inl e \<Rightarrow> Inl e
               | Inr keys_data \<Rightarrow>
                   if truthy keys_data
                   then map_sum id Some (keys_branch keys_data (default_entry rel_path sz modified))
                   else if lower (suffix_of (path_name filepath)) = ''.md''
                   then map_sum id Some
                          (markdown_branch w filepath (default_entry rel_path sz modified))
                   else Inr (Some (default_entry rel_path sz modified)))))))"

section \<open>Directory entries\<close>

text \<open>\<open>meta.get(k, dflt)\<close>: only a dictionary has the method.\<close>

fun py_get :: "pyval \<Rightarrow> string \<Rightarrow> pyval \<Rightarrow> py_exn + pyval" where
  "py_get (PDict kvs) k dflt = Inr (case map_of kvs k of Some v \<Rightarrow> v | None \<Rightarrow> dflt)"
| "py_get v k dflt = Inl AttributeError"

definition process_directory_meta :: "world \<Rightarrow> path \<Rightarrow> py_exn + pydict option" where
  "process_directory_meta w dir_path =
     (case load_directory_meta w dir_path of
        Inl e \<Rightarrow> Inl e
      | Inr meta \<Rightarrow>
          if \<not> truthy meta then Inr None
          else
            (let rel_path = (if relative_str dir_path = ''.'' then [] else relative_str dir_path)
             in case py_get meta ''title''
                       (PStr (if rel_path \<noteq> [] then path_name dir_path else ''Home'')) of
                  Inl e \<Rightarrow> Inl e
                | Inr title \<Rightarrow>
               (case py_get meta ''tags'' (PList []) of
                  Inl e \<Rightarrow> Inl e
                | Inr tags \<Rightarrow>
               (case py_get meta ''description'' PNone of
                  Inl e \<Rightarrow> Inl e
                | Inr description \<Rightarrow>
               (case py_get meta ''icon'' PNone of
                  Inl e \<Rightarrow> Inl e
                | Inr icon \<Rightarrow>
               (case py_get meta ''thumbnail'' PNone of
                  Inl e \<Rightarrow> Inl e
                | Inr thumbnail \<Rightarrow>
                    Inr (Some [(''path'', PStr rel_path),
                               (''title'', title),
                               (''tags'', tags),
                               (''description'', description),
                               (''icon'', icon),
                               (''thumbnail'', thumbnail)])))))))"

section \<open>Writing the manifest\<close>

text \<open>
  \<open>json.dump(manifest, f, indent=2, ensure_ascii=False)\<close>. The result is the text
  handed to the file object, which encodes it as UTF-8.
\<close>

function show_digits :: "int \<Rightarrow> string" where
  "show_digits n =
     (if n < 10 then [char_of (48 + n)]
      else show_digits (n div 10) @ [char_of (48 + n mod 10)])"
  by pat_completeness auto
termination
  by (relation "measure nat") auto

definition show_int :: "int \<Rightarrow> string" where
  "show_int i = (if i < 0 then CHR ''-'' # show_digits (- i) else show_digits i)"

definition hex_digit :: "nat \<Rightarrow> char" where
  "hex_digit n = (if n < 10 then char_of (48 + n) else char_of (87 + n))"

definition escape_char :: "char \<Rightarrow> string" where
  "escape_char c =
     (let n = (of_char c :: nat)
      in if c = CHR 0x22 then [CHR 0x5C, CHR 0x22]
         else if c = CHR 0x5C then [CHR 0x5C, CHR 0x5C]
         else if n = 8 then [CHR 0x5C, CHR ''b'']
         else if n = 12 then [CHR 0x5C, CHR ''f'']
         else if n = 10 then [CHR 0x5C, CHR ''n'']
         else if n = 13 then [CHR 0x5C, CHR ''r'']
         else if n = 9 then [CHR 0x5C, CHR ''t'']
         else if n < 32 then [CHR 0x5C, CHR ''u'', CHR ''0'', CHR ''0'',
                              hex_digit (n div 16), hex_digit (n mod 16)]
         else [c])"

definition encode_str :: "string \<Rightarrow> string" where
  "encode_str s = [CHR 0x22] @ concat (map escape_char s) @ [CHR 0x22]"

fun join_with :: "string \<Rightarrow> string list \<Rightarrow> string" where
  "join_with sep [] = []"
| "join_with sep [x] = x"
| "join_with sep (x # y # ys) = x @ sep @ join_with sep (y # ys)"

definition newline_indent :: "nat \<Rightarrow> string" where
  "newline_indent level = newline # replicate (2 * level) CHR '' ''"

fun json_encode :: "nat \<Rightarrow> pyval \<Rightarrow> string" where
  "json_encode level PNone = ''null''"
| "json_encode level (PBool b) = (if b then ''true'' else ''false'')"
| "json_encode level (PInt i) = show_int i"
| "json_encode level (PFloat r) = r"
| "json_encode level (PStr s) = encode_str s"
| "json_encode level (PList xs) =
     (if xs = [] then ''[]''
      else ''['' @ newline_indent (Suc level)
           @ join_with ('','' @ newline_indent (Suc level)) (map (json_encode (Suc level)) xs)
           @ newline_indent level @ '']'')"
| "json_encode level (PDict kvs) =
     (if kvs = [] then ''{}''
      else ''{'' @ newline_indent (Suc level)
           @ join_with ('','' @ newline_indent (Suc level))
               (map (\<lambda>(k, v). encode_str k @ '': '' @ json_encode (Suc level) v) kvs)
           @ newline_indent level @ ''}'')"

definition json_dump :: "pyval \<Rightarrow> string" where
  "json_dump v = json_encode 0 v"

section \<open>The pipeline\<close>

text \<open>
  The two loops of \<open>main\<close> over \<open>sorted(content_dir.rglob('*'))\<close>. Paths compare
  component by component, each component as a string.
\<close>

fun collect_files :: "world \<Rightarrow> path list \<Rightarrow> pydict list \<Rightarrow> py_exn + pydict list" where
  "collect_files w [] files = Inr files"
| "collect_files w (filepath # rest) files =
     (if is_file w filepath \<and> path_name filepath \<noteq> ''.meta.json''
      then (case process_file w filepath of
              Inl e \<Rightarrow> Inl e
            | Inr None \<Rightarrow> collect_files w rest files
            | Inr (Some entry) \<Rightarrow>
                if truthy (PDict entry) then collect_files w rest (files @ [entry])
                else collect_files w rest files)
      else collect_files w rest files)"

fun collect_directories :: "world \<Rightarrow> path list \<Rightarrow> pydict list \<Rightarrow> py_exn + pydict list" where
  "collect_directories w [] directories = Inr directories"
| "collect_directories w (dirpath # rest) directories =
     (if is_dir w dirpath
      then (case process_directory_meta w dirpath of
              Inl e \<Rightarrow> Inl e
            | Inr None \<Rightarrow> collect_directories w rest directories
            | Inr (Some entry) \<Rightarrow>
                if truthy (PDict entry) then collect_directories w rest (directories @ [entry])
                else collect_directories w rest directories)
      else collect_directories w rest directories)"

text \<open>
  The manifest that \<open>main\<close> builds; \<open>None\<close> when the content directory is missing and
  \<open>main\<close> returns after its message.
\<close>

definition build_manifest :: "world \<Rightarrow> py_exn + pyval option" where
  "build_manifest w =
     (if \<not> root_exists w then Inr None
      else
        (case collect_files w (sort (rglob w)) [] of
           Inl e \<Rightarrow> Inl e
         | Inr files \<Rightarrow>
        (case collect_directories w (sort (rglob w)) [] of
           Inl e \<Rightarrow> Inl e
         | Inr directories \<Rightarrow>
        (case process_directory_meta w [] of
           Inl e \<Rightarrow> Inl e
         | Inr root_entry \<Rightarrow>
             Inr (Some (PDict
               [(''files'', PList (map PDict files)),
                (''directories'',
                   PList (map PDict
                     (case root_entry of
                        Some entry \<Rightarrow>
                          if truthy (PDict entry) then directories @ [entry] else directories
                      | None \<Rightarrow> directories)))]))))))"

text \<open>What \<open>main\<close> writes to the output file, if it writes.\<close>

definition main :: "world \<Rightarrow> py_exn + string option" where
  "main w = map_sum id (map_option json_dump) (build_manifest w)"

section \<open>Sample worlds\<close>

text \<open>
  A content directory with the single file \<open>post.MD\<close>, of 120 bytes. The parameters
  are the outcome of the \<open>git\<close> query, what loading \<open>post.MD.keys\<close> gives (\<open>None\<close> when
  there is no such file) and what reading \<open>post.MD\<close> gives. The date conversion knows
  one date, at UTC.
\<close>

definition sample_strptime :: "string \<Rightarrow> string \<Rightarrow> py_exn + int" where
  "sample_strptime s fmt =
     (if s = ''2024-01-15'' \<and> fmt = ''%Y-%m-%d'' then Inr 1705276800 else Inl ValueError)"

definition sample_world ::
  "proc_outcome \<Rightarrow> (py_exn + pyval) option \<Rightarrow> py_exn + string \<Rightarrow> world" where
  "sample_world g k r =
     \<lparr> root_exists = True,
       rglob = [[''post.MD'']],
       is_file = (\<lambda>p. p = [''post.MD'']),
       is_dir = (\<lambda>p. False),
       file_exists = (\<lambda>p. k \<noteq> None \<and> p = [''post.MD.keys'']),
       st_size = (\<lambda>p. Inr 120),
       git_log = (\<lambda>p. g),
       read_text = (\<lambda>p. r),
       json_load = (\<lambda>p. case k of Some v \<Rightarrow> v | None \<Rightarrow> Inl FileNotFoundError),
       strptime_timestamp = sample_strptime \<rparr>"

text \<open>
  A markdown file with a frontmatter block and a heading, one with a heading only and one
  with neither.
\<close>

definition sample_post :: string where
  "sample_post =
     ''---'' @ [newline] @
     ''title: '' @ [CHR 0x22] @ ''X'' @ [CHR 0x22] @ [newline] @
     ''modified: 2024-01-15'' @ [newline] @
     ''tags: [a, b]'' @ [newline] @
     ''---'' @ [newline] @
     ''# Heading'' @ [newline]"

definition sample_heading :: string where
  "sample_heading = ''# Hello'' @ [newline] @ ''text''"



text \<open>A block that exercises the value forms and the list continuation.\<close>

definition sample_block :: string where
  "sample_block =
     ''---'' @ [newline] @
     ''title: '' @ [CHR 0x22, CHR 0x27] @ ''X'' @ [CHR 0x27, CHR 0x22] @ [newline] @
     ''draft: TRUE'' @ [newline] @
     ''tags:'' @ [newline] @
     ''- one'' @ [newline] @
     ''- '' @ [CHR 0x22] @ ''two'' @ [CHR 0x22] @ [newline] @
     ''---'' @ [newline]"

text \<open>A block whose first list item holds a colon.\<close>

definition sample_links :: string where
  "sample_links =
     ''---'' @ [newline] @
     ''tags:'' @ [newline] @
     ''- https://example.com'' @ [newline] @
     ''- b'' @ [newline] @
     ''---'' @ [newline]"

text \<open>
  The first sample world with its one file holding \<open>sample_post\<close>, on a machine whose
  local time is nine hours ahead of UTC: the same date converts to an earlier instant.
\<close>

definition east_strptime :: "string \<Rightarrow> string \<Rightarrow> py_exn + int" where
  "east_strptime s fmt =
     (if s = ''2024-01-15'' \<and> fmt = ''%Y-%m-%d'' then Inr 1705244400 else Inl ValueError)"

definition east_world :: world where
  "east_world =
     (sample_world (Completed 0 ''1700000000'') None (Inr sample_post))
       \<lparr>strptime_timestamp := east_strptime\<rparr>"

text \<open>
  A content directory with a described subdirectory \<open>notes\<close>, an undescribed
  subdirectory \<open>img\<close> and a root descriptor without a title.
\<close>

definition site_world :: world where
  "site_world =
     \<lparr> root_exists = True,
       rglob = [[''notes''], [''notes'', ''b.md''], [''notes'', ''.meta.json''],
                [''img''], [''img'', ''a.png''], [''.meta.json'']],
       is_file = (\<lambda>p. p \<in> {[''notes'', ''b.md''], [''notes'', ''.meta.json''],
                              [''img'', ''a.png''], [''.meta.json'']}),
       is_dir = (\<lambda>p. p \<in> {[''notes''], [''img'']}),
       file_exists = (\<lambda>p. p \<in> {[''notes'', ''.meta.json''], [''.meta.json'']}),
       st_size = (\<lambda>p. Inr 10),
       git_log = (\<lambda>p. Completed 0 ''1700000000''),
       read_text = (\<lambda>p. Inr sample_heading),
       json_load = (\<lambda>p. if p = [''.meta.json'']
                          then Inr (PDict [(''description'', PStr ''root'')])
                          else if p = [''notes'', ''.meta.json'']
                          then Inr (PDict [(''title'', PStr ''Notes'')])
                          else Inl FileNotFoundError),
       strptime_timestamp = sample_strptime \<rparr>"

section \<open>Facts about strings, paths and sums\<close>


lemma split_on_no_sep: "sep \<notin> set x \<Longrightarrow> split_on sep x = [x]"
  by (induction x) auto

lemma split_on_append: "sep \<notin> set x \<Longrightarrow> split_on sep (x @ sep # rest) = x # split_on sep rest"
  by (induction x) (auto split: list.splits)

lemma split_join_slash:
  "p \<noteq> [] \<Longrightarrow> \<forall>c \<in> set p. CHR ''/'' \<notin> set c \<Longrightarrow> split_on CHR ''/'' (join_slash p) = p"
proof (induction p rule: join_slash.induct)
  case 1
  then show ?case by simp
next
  case (2 x)
  then show ?case by (simp add: split_on_no_sep)
next
  case (3 x y ys)
  then show ?case by (simp add: split_on_append)
qed

lemma default_title:
  assumes "p \<noteq> []" and "\<forall>c \<in> set p. CHR ''/'' \<notin> set c"
  shows "default_entry (relative_str p) sz ts =
     [(''path'', PStr (relative_str p)), (''title'', PStr (stem_of (path_name p))),
      (''size'', PInt (int sz)), (''modified'', ts), (''tags'', PList [])]"
  using assms by (simp add: default_entry_def relative_str_def split_join_slash path_name_def)

lemma keys_not_extension: "''.keys'' \<notin> EXTENSIONS"
  by (simp add: EXTENSIONS_def)

lemma md_extension: "''.md'' \<in> EXTENSIONS"
  by (simp add: EXTENSIONS_def)

lemma map_sum_Some_not_None [simp]: "map_sum id Some x \<noteq> Inr None"
  by (cases x) auto

lemma map_sum_Some_eq [simp]: "(map_sum id Some x = Inr (Some e)) = (x = Inr e)"
  by (cases x) auto

lemma startswith_single: "startswith [c] v = (\<exists>cs. v = c # cs)"
  by (cases v) (auto simp: startswith_def)


lemma isspace_newline: "isspace newline"
  by (simp add: isspace_def newline_def)

lemma not_space_letter: "\<not> isspace CHR ''m''"
  by (simp add: isspace_def)




section \<open>The samples, evaluated\<close>

lemma sample_post_frontmatter:
  "parse_frontmatter sample_post =
     [(''title'', PStr ''X''), (''modified'', PStr ''2024-01-15''),
      (''tags'', PList [PStr ''a'', PStr ''b''])]"
  by code_simp




lemma sample_path:
  "lower (suffix_of (path_name [''post.MD''])) = ''.md''
   \<and> \<not> is_hidden (relative_str [''post.MD''])
   \<and> stem_of (path_name [''post.MD'']) = ''post''
   \<and> keys_path [''post.MD''] = [''post.MD.keys'']"
  by code_simp

lemma sample_git:
  "get_git_modified_time (sample_world (Completed 0 ''1700000000'') k r) [''post.MD'']
     = Inr (PInt 1700000000)"
proof -
  have "py_int (strip ''1700000000'') = Some 1700000000" by code_simp
  moreover have "strip ''1700000000'' \<noteq> []" by code_simp
  ultimately show ?thesis
    by (simp add: get_git_modified_time_def sample_world_def subprocess_run_check_def
          try_except_def)
qed

lemma sample_formats:
  "try_formats (sample_world g k r) ''2024-01-15'' formats = Inr (PInt 1705276800)"
  by (simp add: formats_def sample_world_def sample_strptime_def)

lemma sample_date:
  "parse_date_to_timestamp (sample_world g k r) (PStr ''2024-01-15'') = Inr (PInt 1705276800)"
  by (simp add: sample_formats)

lemma site_manifest:
  "build_manifest site_world =
     Inr (Some (PDict
       [(''files'',
         PList [PDict [(''path'', PStr ''img/a.png''), (''title'', PStr ''a''),
                       (''size'', PInt 10), (''modified'', PInt 1700000000),
                       (''tags'', PList [])],
                PDict [(''path'', PStr ''notes/b.md''), (''title'', PStr ''Hello''),
                       (''size'', PInt 10), (''modified'', PInt 1700000000),
                       (''tags'', PList [])]]),
        (''directories'',
         PList [PDict [(''path'', PStr ''notes''), (''title'', PStr ''Notes''),
                       (''tags'', PList []), (''description'', PNone),
                       (''icon'', PNone), (''thumbnail'', PNone)],
                PDict [(''path'', PStr []), (''title'', PStr ''Home''),
                       (''tags'', PList []), (''description'', PStr ''root''),
                       (''icon'', PNone), (''thumbnail'', PNone)]])]))"
  by code_simp

section \<open>Results about the timestamp resolver\<close>

lemma git_time_nonzero_exit:
  "rc \<noteq> 0 \<Longrightarrow> git_log w p = Completed rc out \<Longrightarrow> get_git_modified_time w p = Inr PNone"
  by (simp add: get_git_modified_time_def subprocess_run_check_def try_except_def)

lemma git_time_not_numeric:
  "git_log w p = Completed 0 out \<Longrightarrow> py_int (strip out) = None
   \<Longrightarrow> get_git_modified_time w p = Inr PNone"
  by (simp add: get_git_modified_time_def subprocess_run_check_def try_except_def)

text \<open>
  Claim C1, as the code has it: when the query exits with a non-zero status (which is
  what \<open>git\<close> does outside a repository), or exits with status zero and prints
  something that is not a number, the resolver returns \<open>None\<close> and raises nothing.
\<close>

theorem C1_query_failure_yields_none:
  assumes "git_log w p = Completed rc out"
    and "rc \<noteq> 0 \<or> py_int (strip out) = None"
  shows "get_git_modified_time w p = Inr PNone"
proof (cases "rc = 0")
  case True
  with assms show ?thesis by (simp add: git_time_not_numeric)
next
  case False
  with assms show ?thesis by (simp add: git_time_nonzero_exit)
qed

theorem C1_query_failure_witness:
  "git_log (sample_world (Completed 128 ''fatal'') None (Inl OSError)) [''post.MD'']
     = Completed 128 ''fatal''
   \<and> (128::int) \<noteq> 0
   \<and> get_git_modified_time (sample_world (Completed 128 ''fatal'') None (Inl OSError))
         [''post.MD''] = Inr PNone
   \<and> git_log (sample_world (Completed 0 ''no date'') None (Inl OSError)) [''post.MD'']
     = Completed 0 ''no date''
   \<and> py_int (strip ''no date'') = None
   \<and> get_git_modified_time (sample_world (Completed 0 ''no date'') None (Inl OSError))
         [''post.MD''] = Inr PNone"
proof -
  have run1: "git_log (sample_world (Completed 128 ''fatal'') None (Inl OSError)) [''post.MD'']
               = Completed 128 ''fatal''"
    by (simp add: sample_world_def)
  have failed1: "(128::int) \<noteq> 0 \<or> py_int (strip ''fatal'') = None"
    by simp
  have run2: "git_log (sample_world (Completed 0 ''no date'') None (Inl OSError)) [''post.MD'']
               = Completed 0 ''no date''"
    by (simp add: sample_world_def)
  have text2: "py_int (strip ''no date'') = None"
    by code_simp
  then have failed2: "(0::int) \<noteq> 0 \<or> py_int (strip ''no date'') = None"
    by simp
  from C1_query_failure_yields_none [OF run1 failed1]
    C1_query_failure_yields_none [OF run2 failed2] run1 run2 text2
  show ?thesis
    by simp
qed

text \<open>
  Claim C1 as stated also promises \<open>None\<close> when the tool itself is absent. Starting the
  process then raises \<open>FileNotFoundError\<close>, which is neither of the two caught classes.
\<close>

theorem C1_tool_absent_counterexample:
  "git_log (sample_world (LaunchError FileNotFoundError) None (Inl OSError)) [''post.MD'']
     = LaunchError FileNotFoundError
   \<and> get_git_modified_time (sample_world (LaunchError FileNotFoundError) None (Inl OSError))
         [''post.MD''] = Inl FileNotFoundError"
  by (simp add: sample_world_def get_git_modified_time_def subprocess_run_check_def
        try_except_def)

section \<open>Results about file entries\<close>

lemma process_file_eligible:
  assumes "lower (suffix_of (path_name p)) \<in> EXTENSIONS"
    and "\<not> is_hidden (relative_str p)"
    and "st_size w p = Inr sz"
    and "get_git_modified_time w p = Inr ts"
    and "load_keys_file w p = Inr kd"
  shows "process_file w p =
     (if truthy kd
      then map_sum id Some (keys_branch kd (default_entry (relative_str p) sz ts))
      else if lower (suffix_of (path_name p)) = ''.md''
      then map_sum id Some (markdown_branch w p (default_entry (relative_str p) sz ts))
      else Inr (Some (default_entry (relative_str p) sz ts)))"
proof -
  from assms(1) keys_not_extension have "lower (suffix_of (path_name p)) \<noteq> ''.keys''"
    by metis
  with assms show ?thesis
    by (simp add: process_file_def)
qed

lemma load_keys_file_absent: "\<not> file_exists w (keys_path p) \<Longrightarrow> load_keys_file w p = Inr PNone"
  by (simp add: load_keys_file_def)

lemma apply_field_dict:
  "apply_field (PDict kvs) k ok target =
     Inr (case map_of kvs k of
            Some v \<Rightarrow> if ok v then AList.update k v target else target
          | None \<Rightarrow> target)"
proof (cases "map_of kvs k")
  case None
  then have "k \<notin> fst ` set kvs" by (simp add: map_of_eq_None_iff)
  with None show ?thesis by (simp add: apply_field_def)
next
  case (Some v)
  then have "k \<in> fst ` set kvs" by (metis map_of_eq_None_iff option.distinct(1))
  with Some show ?thesis by (simp add: apply_field_def)
qed

lemma apply_field_other:
  "apply_field kd k ok target = Inr t' \<Longrightarrow> \<forall>kvs. kd \<noteq> PDict kvs \<Longrightarrow> t' = target"
  by (cases kd) (auto simp: apply_field_def split: if_splits bool.splits)

lemma keys_branch_dict:
  "\<exists>e. keys_branch (PDict kvs) entry = Inr e
     \<and> map_of e ''title'' = (case map_of kvs ''title'' of Some t \<Rightarrow> Some t | None \<Rightarrow> map_of entry ''title'')
     \<and> map_of e ''tags'' = (case map_of kvs ''tags'' of
                               Some v \<Rightarrow> if is_list v then Some v else map_of entry ''tags''
                             | None \<Rightarrow> map_of entry ''tags'')"
  by (simp add: keys_branch_def apply_field_dict update_conv' split: option.splits)

lemma keys_branch_other:
  assumes "keys_branch kd entry = Inr e" and "\<forall>kvs. kd \<noteq> PDict kvs"
  shows "map_of e ''title'' = map_of entry ''title'' \<and> map_of e ''tags'' = map_of entry ''tags''"
proof -
  from assms(1) obtain e1 e2 c1 c2 where
    a: "apply_field kd ''title'' (\<lambda>v. True) entry = Inr e1"
    and b: "apply_field kd ''tags'' is_list e1 = Inr e2"
    and c: "apply_field kd ''algorithm'' (\<lambda>v. True) [] = Inr c1"
    and d: "apply_field kd ''wrapped_keys'' (\<lambda>v. True) c1 = Inr c2"
    and e: "e = (if c2 \<noteq> [] then AList.update ''encryption'' (PDict c2) e2 else e2)"
    by (auto simp: keys_branch_def split: sum.splits)
  from a b assms(2) have "e2 = entry"
    by (metis apply_field_other)
  with e show ?thesis
    by (simp add: update_conv')
qed

lemma load_keys_file_frame: "load_keys_file (w\<lparr>read_text := r\<rparr>) p = load_keys_file w p"
  by (simp add: load_keys_file_def)

lemma git_time_frame: "get_git_modified_time (w\<lparr>read_text := r\<rparr>) p = get_git_modified_time w p"
  by (simp add: get_git_modified_time_def)



lemma markdown_body_modified:
  assumes "read_text w p = Inr content"
    and "map_of (parse_frontmatter content) ''modified'' = Some v"
    and "parse_date_to_timestamp w v = Inr m"
  shows "\<exists>e. markdown_body w p entry = (None, e) \<and> map_of e ''modified'' = Some m"
  using assms by (simp add: markdown_body_def Let_def update_conv')


text \<open>
  Claim C2, as the code has it: when the sidecar of a file loads to a value that counts
  as true (a non-empty dictionary, for the sidecars the script expects), the markdown
  file is never read. The result of \<open>process_file\<close> is the same whatever reading the
  file would give, and the title and the tags of the entry are those of the sidecar, or
  the defaults where the sidecar has none.
\<close>

theorem C2_loaded_sidecar_skips_markdown:
  assumes "load_keys_file w p = Inr keys_data" and "truthy keys_data"
  shows "process_file (w\<lparr>read_text := r\<rparr>) p = process_file w p
    \<and> (\<forall>e. process_file w p = Inr (Some e) \<longrightarrow>
          map_of e ''title'' =
            Some (case keys_data of
                    PDict kvs \<Rightarrow>
                      (case map_of kvs ''title'' of
                         Some t \<Rightarrow> t
                       | None \<Rightarrow> PStr (stem_of (last (split_on CHR ''/'' (relative_str p)))))
                  | _ \<Rightarrow> PStr (stem_of (last (split_on CHR ''/'' (relative_str p)))))
          \<and> map_of e ''tags'' =
            Some (case keys_data of
                    PDict kvs \<Rightarrow>
                      (case map_of kvs ''tags'' of
                         Some v \<Rightarrow> if is_list v then v else PList []
                       | None \<Rightarrow> PList [])
                  | _ \<Rightarrow> PList []))"
proof (intro conjI allI impI)
  show "process_file (w\<lparr>read_text := r\<rparr>) p = process_file w p"
    using assms
    by (simp add: process_file_def load_keys_file_frame git_time_frame Let_def split: sum.splits)
next
  fix e
  assume res: "process_file w p = Inr (Some e)"
  then obtain sz ts where
    kb: "keys_branch keys_data (default_entry (relative_str p) sz ts) = Inr e"
    using assms
    by (auto simp: process_file_def Let_def split: if_splits sum.splits)
  have dt: "map_of (default_entry (relative_str p) sz ts) ''title''
              = Some (PStr (stem_of (last (split_on CHR ''/'' (relative_str p)))))"
    and dg: "map_of (default_entry (relative_str p) sz ts) ''tags'' = Some (PList [])"
    by (simp_all add: default_entry_def)
  show "map_of e ''title'' =
            Some (case keys_data of
                    PDict kvs \<Rightarrow>
                      (case map_of kvs ''title'' of
                         Some t \<Rightarrow> t
                       | None \<Rightarrow> PStr (stem_of (last (split_on CHR ''/'' (relative_str p)))))
                  | _ \<Rightarrow> PStr (stem_of (last (split_on CHR ''/'' (relative_str p)))))"
  proof (cases "\<exists>kvs. keys_data = PDict kvs")
    case True
    then obtain kvs where k: "keys_data = PDict kvs" by blast
    from keys_branch_dict [of kvs "default_entry (relative_str p) sz ts"] kb k dt
    show ?thesis by (auto split: option.splits)
  next
    case False
    with keys_branch_other [OF kb] dt show ?thesis
      by (cases keys_data) auto
  qed
  show "map_of e ''tags'' =
            Some (case keys_data of
                    PDict kvs \<Rightarrow>
                      (case map_of kvs ''tags'' of
                         Some v \<Rightarrow> if is_list v then v else PList []
                       | None \<Rightarrow> PList [])
                  | _ \<Rightarrow> PList [])"
  proof (cases "\<exists>kvs. keys_data = PDict kvs")
    case True
    then obtain kvs where k: "keys_data = PDict kvs" by blast
    from keys_branch_dict [of kvs "default_entry (relative_str p) sz ts"] kb k dg
    show ?thesis by (auto split: option.splits)
  next
    case False
    with keys_branch_other [OF kb] dg show ?thesis
      by (cases keys_data) auto
  qed
qed

theorem C2_loaded_sidecar_witness:
  "load_keys_file (sample_world (Completed 0 ''1700000000'')
       (Some (Inr (PDict [(''title'', PStr ''S'')]))) (Inr sample_post)) [''post.MD'']
     = Inr (PDict [(''title'', PStr ''S'')])
   \<and> truthy (PDict [(''title'', PStr ''S'')])
   \<and> process_file ((sample_world (Completed 0 ''1700000000'')
          (Some (Inr (PDict [(''title'', PStr ''S'')]))) (Inr sample_post))
            \<lparr>read_text := \<lambda>p. Inr sample_heading\<rparr>) [''post.MD'']
     = process_file (sample_world (Completed 0 ''1700000000'')
          (Some (Inr (PDict [(''title'', PStr ''S'')]))) (Inr sample_post)) [''post.MD'']
   \<and> process_file (sample_world (Completed 0 ''1700000000'')
          (Some (Inr (PDict [(''title'', PStr ''S'')]))) (Inr sample_post)) [''post.MD'']
     = Inr (Some [(''path'', PStr ''post.MD''), (''title'', PStr ''S''),
                  (''size'', PInt 120), (''modified'', PInt 1700000000),
                  (''tags'', PList [])])"
proof -
  let ?w = "sample_world (Completed 0 ''1700000000'')
              (Some (Inr (PDict [(''title'', PStr ''S'')]))) (Inr sample_post)"
  have kp: "keys_path [''post.MD''] = [''post.MD.keys'']"
    using sample_path by simp
  have keys: "load_keys_file ?w [''post.MD''] = Inr (PDict [(''title'', PStr ''S'')])"
    by (simp add: load_keys_file_def kp sample_world_def try_except_def)
  have tr: "truthy (PDict [(''title'', PStr ''S'')])"
    by simp
  have res: "process_file ?w [''post.MD'']
     = Inr (Some [(''path'', PStr ''post.MD''), (''title'', PStr ''S''),
                  (''size'', PInt 120), (''modified'', PInt 1700000000),
                  (''tags'', PList [])])"
    by code_simp
  from C2_loaded_sidecar_skips_markdown [OF keys tr, of "\<lambda>p. Inr sample_heading", THEN conjunct1]
    keys tr res
  show ?thesis by simp
qed

text \<open>
  Claim C2 as stated speaks of every sidecar that exists on disk. A sidecar that holds
  the empty object, or one that is not valid JSON, is loaded as nothing, and the
  frontmatter of the markdown file is parsed: title, tags and date below come from the
  file.
\<close>

theorem C2_empty_sidecar_counterexample:
  "file_exists (sample_world (Completed 0 ''1700000000'') (Some (Inr (PDict []))) (Inr sample_post))
     (keys_path [''post.MD''])
   \<and> process_file (sample_world (Completed 0 ''1700000000'') (Some (Inr (PDict [])))
                     (Inr sample_post)) [''post.MD'']
     = Inr (Some [(''path'', PStr ''post.MD''), (''title'', PStr ''X''),
                  (''size'', PInt 120), (''modified'', PInt 1705276800),
                  (''tags'', PList [PStr ''a'', PStr ''b''])])
   \<and> file_exists (sample_world (Completed 0 ''1700000000'') (Some (Inl JSONDecodeError))
                    (Inr sample_heading)) (keys_path [''post.MD''])
   \<and> process_file (sample_world (Completed 0 ''1700000000'') (Some (Inl JSONDecodeError))
                     (Inr sample_heading)) [''post.MD'']
     = Inr (Some [(''path'', PStr ''post.MD''), (''title'', PStr ''Hello''),
                  (''size'', PInt 120), (''modified'', PInt 1700000000),
                  (''tags'', PList [])])"
proof -
  have a: "process_file (sample_world (Completed 0 ''1700000000'') (Some (Inr (PDict [])))
                     (Inr sample_post)) [''post.MD'']
     = Inr (Some [(''path'', PStr ''post.MD''), (''title'', PStr ''X''),
                  (''size'', PInt 120), (''modified'', PInt 1705276800),
                  (''tags'', PList [PStr ''a'', PStr ''b''])])"
    by code_simp
  have b: "process_file (sample_world (Completed 0 ''1700000000'') (Some (Inl JSONDecodeError))
                     (Inr sample_heading)) [''post.MD'']
     = Inr (Some [(''path'', PStr ''post.MD''), (''title'', PStr ''Hello''),
                  (''size'', PInt 120), (''modified'', PInt 1700000000),
                  (''tags'', PList [])])"
    by code_simp
  from a b sample_path show ?thesis
    by (simp add: sample_world_def)
qed

text \<open>
  Claim C3, as the code has it: for an eligible markdown file with no loaded sidecar
  data, for which the size and the version-control timestamp are available, a read that
  fails with an \<open>IOError\<close> leaves the default entry (title the stem of the file name,
  size, version-control timestamp, no tags), and nothing is raised.
\<close>

theorem C3_io_error_keeps_defaults:
  assumes "lower (suffix_of (path_name p)) = ''.md''"
    and "\<not> is_hidden (relative_str p)"
    and "p \<noteq> []" and "\<forall>c \<in> set p. CHR ''/'' \<notin> set c"
    and "st_size w p = Inr sz"
    and "get_git_modified_time w p = Inr ts"
    and "load_keys_file w p = Inr kd" and "\<not> truthy kd"
    and "read_text w p = Inl e" and "exn_isa e IOError"
  shows "process_file w p =
           Inr (Some [(''path'', PStr (relative_str p)),
                      (''title'', PStr (stem_of (path_name p))),
                      (''size'', PInt (int sz)),
                      (''modified'', ts),
                      (''tags'', PList [])])"
proof -
  have "markdown_branch w p (default_entry (relative_str p) sz ts)
          = Inr (default_entry (relative_str p) sz ts)"
    using assms(9,10) by (simp add: markdown_branch_def markdown_body_def)
  with assms md_extension show ?thesis
    by (simp add: process_file_eligible default_title)
qed

theorem C3_io_error_witness:
  "read_text (sample_world (Completed 0 ''1700000000'') None (Inl PermissionError)) [''post.MD'']
     = Inl PermissionError
   \<and> exn_isa PermissionError IOError
   \<and> process_file (sample_world (Completed 0 ''1700000000'') None (Inl PermissionError))
         [''post.MD'']
       = Inr (Some [(''path'', PStr ''post.MD''), (''title'', PStr ''post''),
                    (''size'', PInt 120), (''modified'', PInt 1700000000),
                    (''tags'', PList [])])"
proof -
  let ?w = "sample_world (Completed 0 ''1700000000'') None (Inl PermissionError)"
  have wf: "[''post.MD''] \<noteq> []" "\<forall>c \<in> set [''post.MD'']. CHR ''/'' \<notin> set c"
    by simp_all
  have md: "lower (suffix_of (path_name [''post.MD''])) = ''.md''"
    and vis: "\<not> is_hidden (relative_str [''post.MD''])"
    and stem: "stem_of (path_name [''post.MD'']) = ''post''"
    using sample_path by simp_all
  have sz: "st_size ?w [''post.MD''] = Inr 120"
    by (simp add: sample_world_def)
  have keys: "load_keys_file ?w [''post.MD''] = Inr PNone"
    by (simp add: load_keys_file_def sample_world_def)
  have nt: "\<not> truthy PNone" by simp
  have rd: "read_text ?w [''post.MD''] = Inl PermissionError"
    by (simp add: sample_world_def)
  have io: "exn_isa PermissionError IOError"
    by (simp add: IOError_def)
  have rel: "relative_str [''post.MD''] = ''post.MD''"
    by (simp add: relative_str_def)
  from C3_io_error_keeps_defaults [OF md vis wf sz sample_git keys nt rd io] rd io
  show ?thesis
    by (simp add: stem rel)
qed

text \<open>
  Claim C3 as stated covers every file that cannot be read. A file that is not valid
  UTF-8 raises \<open>UnicodeDecodeError\<close>, which is not an \<open>IOError\<close> and leaves
  \<open>process_file\<close>; a file with a loaded sidecar takes its title from the sidecar, not
  from the file name; and a missing \<open>git\<close> executable raises before the file is opened.
\<close>

theorem C3_decode_error_counterexample:
  "read_text (sample_world (Completed 0 ''1700000000'') None (Inl UnicodeDecodeError))
     [''post.MD''] = Inl UnicodeDecodeError
   \<and> process_file (sample_world (Completed 0 ''1700000000'') None (Inl UnicodeDecodeError))
       [''post.MD''] = Inl UnicodeDecodeError
   \<and> read_text (sample_world (Completed 0 ''1700000000'')
                   (Some (Inr (PDict [(''title'', PStr ''S'')]))) (Inl PermissionError))
       [''post.MD''] = Inl PermissionError
   \<and> process_file (sample_world (Completed 0 ''1700000000'')
                      (Some (Inr (PDict [(''title'', PStr ''S'')]))) (Inl PermissionError))
       [''post.MD'']
     = Inr (Some [(''path'', PStr ''post.MD''), (''title'', PStr ''S''),
                  (''size'', PInt 120), (''modified'', PInt 1700000000),
                  (''tags'', PList [])])
   \<and> read_text (sample_world (LaunchError FileNotFoundError) None (Inl PermissionError))
       [''post.MD''] = Inl PermissionError
   \<and> process_file (sample_world (LaunchError FileNotFoundError) None (Inl PermissionError))
       [''post.MD''] = Inl FileNotFoundError"
proof -
  have a: "process_file (sample_world (Completed 0 ''1700000000'') None (Inl UnicodeDecodeError))
       [''post.MD''] = Inl UnicodeDecodeError"
    by code_simp
  have c: "process_file (sample_world (LaunchError FileNotFoundError) None (Inl PermissionError))
       [''post.MD''] = Inl FileNotFoundError"
    by code_simp
  have b: "process_file (sample_world (Completed 0 ''1700000000'')
                      (Some (Inr (PDict [(''title'', PStr ''S'')]))) (Inl PermissionError))
       [''post.MD'']
     = Inr (Some [(''path'', PStr ''post.MD''), (''title'', PStr ''S''),
                  (''size'', PInt 120), (''modified'', PInt 1700000000),
                  (''tags'', PList [])])"
    by code_simp
  from a b c show ?thesis
    by (simp add: sample_world_def)
qed


lemma heading_at_not_hash: "\<not> startswith ''#'' s \<Longrightarrow> heading_at s = None"
  by (cases s) (auto simp: heading_at_def startswith_def)











section \<open>Results about the frontmatter parser\<close>

lemma lower_char_bracket: "lower_char c = CHR ''t'' \<or> lower_char c = CHR ''f'' \<Longrightarrow>
   c \<noteq> CHR ''['' \<and> c \<noteq> CHR 0x22 \<and> c \<noteq> CHR 0x27"
  by (auto simp: lower_char_def)

lemma parse_value_double:
  "startswith [CHR 0x22] v \<Longrightarrow> endswith [CHR 0x22] v \<Longrightarrow> parse_value v = PStr (slice_inner v)"
  by (auto simp: parse_value_def startswith_single)

lemma parse_value_single:
  "startswith [CHR 0x27] v \<Longrightarrow> endswith [CHR 0x27] v \<Longrightarrow> parse_value v = PStr (slice_inner v)"
  by (auto simp: parse_value_def startswith_single)

lemma parse_value_true: "lower v = ''true'' \<Longrightarrow> parse_value v = PBool True"
proof -
  assume l: "lower v = ''true''"
  then obtain c cs where v: "v = c # cs" and c: "lower_char c = CHR ''t''"
    by (cases v) (auto simp: lower_def)
  from lower_char_bracket c have "c \<noteq> CHR ''['' \<and> c \<noteq> CHR 0x22 \<and> c \<noteq> CHR 0x27" by blast
  with v l show ?thesis
    by (simp add: parse_value_def startswith_single)
qed

lemma parse_value_false: "lower v = ''false'' \<Longrightarrow> parse_value v = PBool False"
proof -
  assume l: "lower v = ''false''"
  then obtain c cs where v: "v = c # cs" and c: "lower_char c = CHR ''f''"
    by (cases v) (auto simp: lower_def)
  from lower_char_bracket c have "c \<noteq> CHR ''['' \<and> c \<noteq> CHR 0x22 \<and> c \<noteq> CHR 0x27" by blast
  with v l show ?thesis
    by (simp add: parse_value_def startswith_single)
qed

lemma parse_value_blank: "parse_value [] = PList []"
  by (simp add: parse_value_def startswith_def endswith_def lower_def)

lemma fm_line_key_value:
  assumes "strip raw = line" and "line \<noteq> []" and "\<not> startswith ''#'' line"
    and "CHR '':'' \<in> set line"
  shows "fm_line fm raw =
           AList.update (strip (takeWhile (\<lambda>c. c \<noteq> CHR '':'') line))
             (parse_value (strip (tl (dropWhile (\<lambda>c. c \<noteq> CHR '':'') line)))) fm"
  using assms by (simp add: fm_line_def Let_def)

lemma item_line_shape:
  assumes "startswith ''- '' line"
  shows "line \<noteq> [] \<and> \<not> startswith ''#'' line"
  using assms by (cases line) (auto simp: startswith_def)

lemma fm_line_item:
  assumes "strip raw = line" and "startswith ''- '' line" and "CHR '':'' \<notin> set line"
    and "fm \<noteq> []" and "map_of fm (fst (last fm)) = Some (PList xs)"
  shows "fm_line fm raw =
           AList.update (fst (last fm))
             (PList (xs @ [PStr (strip_quotes (strip (drop 2 line)))])) fm"
  using assms item_line_shape [OF assms(2)] by (simp add: fm_line_def Let_def)

lemma fm_line_item_not_list:
  assumes "strip raw = line" and "startswith ''- '' line" and "CHR '':'' \<notin> set line"
    and "map_of fm (fst (last fm)) = Some v" and "\<not> is_list v"
  shows "fm_line fm raw = fm"
  using assms item_line_shape [OF assms(2)]
  by (cases v) (auto simp: fm_line_def Let_def)

lemma update_new_key_last:
  "k \<notin> fst ` set fm \<Longrightarrow> last (AList.update k v fm) = (k, v)"
  by (induction fm) (auto simp: AList.update.simps)

lemma startswith_close_append:
  assumes "\<not> startswith (newline # ''---'') (c # cs)"
  shows "\<not> startswith (newline # ''---'') (c # cs @ newline # tail)"
proof (cases "c = newline")
  case False
  then show ?thesis by (simp add: startswith_def)
next
  case True
  show ?thesis
  proof (cases cs)
    case Nil
    then show ?thesis by (simp add: startswith_def newline_def)
  next
    case (Cons c1 cs1)
    show ?thesis
    proof (cases cs1)
      case Nil
      with Cons show ?thesis by (simp add: startswith_def newline_def)
    next
      case (Cons c2 cs2)
      note l2 = Cons
      show ?thesis
      proof (cases cs2)
        case Nil
        with l2 \<open>cs = c1 # cs1\<close> show ?thesis by (simp add: startswith_def newline_def)
      next
        case (Cons c3 cs3)
        with l2 \<open>cs = c1 # cs1\<close> assms show ?thesis by (simp add: startswith_def)
      qed
    qed
  qed
qed

lemma lazy_close_body:
  assumes "\<not> contains_sub (newline # ''---'') body"
  shows "lazy_close acc (body @ newline # ''---'' @ newline # rest)
           = Some (acc @ body, hd (ws_nl_rests rest @ [rest]))"
  using assms
proof (induction body arbitrary: acc)
  case Nil
  then show ?case
    by (simp add: startswith_def isspace_newline)
next
  case (Cons c cs)
  from Cons.prems have ns: "\<not> startswith (newline # ''---'') (c # cs)"
    and nc: "\<not> contains_sub (newline # ''---'') cs"
    by simp_all
  from ns have "\<not> startswith (newline # ''---'') (c # cs @ newline # ''---'' @ newline # rest)"
    by (rule startswith_close_append)
  then have "lazy_close acc ((c # cs) @ newline # ''---'' @ newline # rest)
      = lazy_close (acc @ [c]) (cs @ newline # ''---'' @ newline # rest)"
    by simp
  with Cons.IH [OF nc, of "acc @ [c]"] show ?case
    by simp
qed

lemma frontmatter_block:
  assumes "body \<noteq> []" and "\<not> isspace (hd body)"
    and "\<not> contains_sub (newline # ''---'') body"
  shows "parse_frontmatter (''---'' @ [newline] @ body @ [newline] @ ''---'' @ [newline] @ rest)
           = foldl fm_line [] (split_on newline body)"
proof -
  from assms(1,2) obtain c cs where b: "body = c # cs" and c: "\<not> isspace c"
    by (cases body) auto
  have "ws_nl_rests (newline # body @ newline # ''---'' @ newline # rest)
          = [body @ newline # ''---'' @ newline # rest]"
    using b c by (simp add: isspace_newline)
  then have "frontmatter_match (''---'' @ [newline] @ body @ [newline] @ ''---'' @ [newline] @ rest)
          = Some (body, hd (ws_nl_rests rest @ [rest]))"
    using lazy_close_body [OF assms(3), of "[]" rest]
    by (simp add: frontmatter_match_def startswith_def)
  then show ?thesis
    by (simp add: parse_frontmatter_def)
qed

lemma sample_links_frontmatter:
  "parse_frontmatter sample_links
     = [(''tags'', PList []), (''- https'', PStr ''//example.com'')]"
  by code_simp

text \<open>
  Claim C5, as the code has it: the frontmatter of a content that starts with a block
  between two \<open>---\<close> lines is what the loop over the lines of the block builds. On a
  \<open>key: value\<close> line, a value between double quotes loses them, a value between single
  quotes loses them, \<open>true\<close> and \<open>false\<close> in any case are the booleans, and an empty
  value is the empty list; the line assigns the value to the key. A key that is new
  becomes the last key. A line \<open>- item\<close> that holds no colon appends the item to the
  value of the last key when that value is a list, and changes nothing when it is not.
\<close>

theorem C5_frontmatter_edge_cases:
  "(startswith [CHR 0x22] v \<and> endswith [CHR 0x22] v \<longrightarrow> parse_value v = PStr (slice_inner v))
   \<and> (startswith [CHR 0x27] v \<and> endswith [CHR 0x27] v \<longrightarrow> parse_value v = PStr (slice_inner v))
   \<and> (lower v = ''true'' \<longrightarrow> parse_value v = PBool True)
   \<and> (lower v = ''false'' \<longrightarrow> parse_value v = PBool False)
   \<and> parse_value [] = PList []
   \<and> (strip raw \<noteq> [] \<and> \<not> startswith ''#'' (strip raw) \<and> CHR '':'' \<in> set (strip raw) \<longrightarrow>
        fm_line fm raw =
          AList.update (strip (takeWhile (\<lambda>c. c \<noteq> CHR '':'') (strip raw)))
            (parse_value (strip (tl (dropWhile (\<lambda>c. c \<noteq> CHR '':'') (strip raw))))) fm)
   \<and> (k \<notin> fst ` set fm \<longrightarrow> last (AList.update k val fm) = (k, val))
   \<and> (startswith ''- '' (strip raw) \<and> CHR '':'' \<notin> set (strip raw) \<and> fm \<noteq> []
        \<and> map_of fm (fst (last fm)) = Some (PList xs) \<longrightarrow>
        fm_line fm raw =
          AList.update (fst (last fm))
            (PList (xs @ [PStr (strip_quotes (strip (drop 2 (strip raw))))])) fm)
   \<and> (startswith ''- '' (strip raw) \<and> CHR '':'' \<notin> set (strip raw)
        \<and> map_of fm (fst (last fm)) = Some u \<and> \<not> is_list u \<longrightarrow> fm_line fm raw = fm)
   \<and> (body \<noteq> [] \<and> \<not> isspace (hd body) \<and> \<not> contains_sub (newline # ''---'') body \<longrightarrow>
        parse_frontmatter
          (''---'' @ [newline] @ body @ [newline] @ ''---'' @ [newline] @ rest)
        = foldl fm_line [] (split_on newline body))"
  using frontmatter_block [of body rest] parse_value_double parse_value_single parse_value_true parse_value_false
    parse_value_blank fm_line_key_value [of raw "strip raw" fm]
    update_new_key_last [of k fm val]
    fm_line_item [of raw "strip raw" fm xs] fm_line_item_not_list [of raw "strip raw" fm u]
  by blast

theorem C5_frontmatter_edge_witness:
  "parse_value [CHR 0x22, CHR 0x27, CHR ''X'', CHR 0x27, CHR 0x22] = PStr [CHR 0x27, CHR ''X'', CHR 0x27]
   \<and> parse_value [CHR 0x27, CHR ''X'', CHR 0x27] = PStr ''X''
   \<and> parse_value ''TRUE'' = PBool True
   \<and> parse_value ''False'' = PBool False
   \<and> fm_line [(''title'', PStr ''X'')] ''tags:'' = [(''title'', PStr ''X''), (''tags'', PList [])]
   \<and> last (AList.update ''tags'' (PList []) [(''title'', PStr ''X'')]) = (''tags'', PList [])
   \<and> fm_line [(''title'', PStr ''X''), (''tags'', PList [])] '' - one''
       = [(''title'', PStr ''X''), (''tags'', PList [PStr ''one''])]
   \<and> fm_line [(''tags'', PList []), (''title'', PStr ''X'')] ''- one''
       = [(''tags'', PList []), (''title'', PStr ''X'')]
   \<and> parse_frontmatter sample_block
       = [(''title'', PStr [CHR 0x27, CHR ''X'', CHR 0x27]), (''draft'', PBool True),
          (''tags'', PList [PStr ''one'', PStr ''two''])]"
proof -
  let ?dq = "[CHR 0x22, CHR 0x27, CHR ''X'', CHR 0x27, CHR 0x22]"
  let ?sq = "[CHR 0x27, CHR ''X'', CHR 0x27]"
  let ?fm1 = "[(''title'', PStr ''X'')]"
  let ?fm2 = "[(''title'', PStr ''X''), (''tags'', PList [])]"
  let ?fm3 = "[(''tags'', PList []), (''title'', PStr ''X'')]"
  have a: "parse_value ?dq = PStr ?sq"
    using C5_frontmatter_edge_cases [where v = "?dq"]
    by (simp add: startswith_def endswith_def slice_inner_def)
  have b: "parse_value ?sq = PStr ''X''"
    using C5_frontmatter_edge_cases [where v = "?sq"]
    by (simp add: startswith_def endswith_def slice_inner_def)
  have lt: "lower ''TRUE'' = ''true''" and lf: "lower ''False'' = ''false''"
    by code_simp+
  have c: "parse_value ''TRUE'' = PBool True"
    using C5_frontmatter_edge_cases [where v = "''TRUE''"] lt by blast
  have d: "parse_value ''False'' = PBool False"
    using C5_frontmatter_edge_cases [where v = "''False''"] lf by blast
  have s1: "strip ''tags:'' = ''tags:''" and s2: "strip '' - one'' = ''- one''"
    and s3: "strip ''- one'' = ''- one''" and s4: "strip [] = []"
    and s5: "strip ''tags'' = ''tags''" and s6: "strip_quotes (strip ''one'') = ''one''"
    by code_simp+
  have e: "fm_line ?fm1 ''tags:'' = ?fm2"
    using C5_frontmatter_edge_cases [where raw = "''tags:''" and fm = "?fm1" and v = "[]"]
    by (simp add: s1 s4 s5 startswith_def)
  have f: "last (AList.update ''tags'' (PList []) ?fm1) = (''tags'', PList [])"
    using C5_frontmatter_edge_cases [where k = "''tags''" and fm = "?fm1" and val = "PList []"]
    by simp
  have g: "fm_line ?fm2 '' - one'' = [(''title'', PStr ''X''), (''tags'', PList [PStr ''one''])]"
    using C5_frontmatter_edge_cases [where raw = "'' - one''" and fm = "?fm2" and xs = "[]"]
    by (simp add: s2 s6 startswith_def)
  have h: "fm_line ?fm3 ''- one'' = ?fm3"
    using C5_frontmatter_edge_cases [where raw = "''- one''" and fm = "?fm3" and u = "PStr ''X''"]
    by (simp add: s3 startswith_def)
  have i: "parse_frontmatter sample_block
       = [(''title'', PStr ?sq), (''draft'', PBool True),
          (''tags'', PList [PStr ''one'', PStr ''two''])]"
    by code_simp
  from a b c d e f g h i show ?thesis by blast
qed

text \<open>
  Claim C5 as stated has every \<open>- item\<close> line appended. A line is tested for a colon
  first: the item \<open>- https://example.com\<close> below becomes a key of its own, and the item
  after it, facing a last key whose value is a string, is dropped. The list of \<open>tags\<close>
  stays empty.
\<close>

theorem C5_item_with_colon_counterexample:
  "parse_frontmatter sample_links
     = [(''tags'', PList []), (''- https'', PStr ''//example.com'')]
   \<and> map_of (parse_frontmatter sample_links) ''tags'' = Some (PList [])
   \<and> fm_line [(''tags'', PList [])] ''- https://example.com''
       = [(''tags'', PList []), (''- https'', PStr ''//example.com'')]"
  by code_simp

section \<open>Results about dates\<close>

lemma try_formats_order:
  "(strptime_timestamp w s ''%Y-%m-%d'' = Inr t \<longrightarrow>
      parse_date_to_timestamp w (PStr s) = Inr (PInt t))
   \<and> (strptime_timestamp w s ''%Y-%m-%d'' = Inl x1 \<and> exn_isa x1 ValueError
        \<and> strptime_timestamp w s ''%Y-%m-%dT%H:%M:%S'' = Inr t \<longrightarrow>
      parse_date_to_timestamp w (PStr s) = Inr (PInt t))
   \<and> (strptime_timestamp w s ''%Y-%m-%d'' = Inl x1 \<and> exn_isa x1 ValueError
        \<and> strptime_timestamp w s ''%Y-%m-%dT%H:%M:%S'' = Inl x2 \<and> exn_isa x2 ValueError
        \<and> strptime_timestamp w s ''%Y/%m/%d'' = Inr t \<longrightarrow>
      parse_date_to_timestamp w (PStr s) = Inr (PInt t))
   \<and> (strptime_timestamp w s ''%Y-%m-%d'' = Inl x1 \<and> exn_isa x1 ValueError
        \<and> strptime_timestamp w s ''%Y-%m-%dT%H:%M:%S'' = Inl x2 \<and> exn_isa x2 ValueError
        \<and> strptime_timestamp w s ''%Y/%m/%d'' = Inl x3 \<and> exn_isa x3 ValueError \<longrightarrow>
      parse_date_to_timestamp w (PStr s) = Inr PNone)"
  by (simp add: formats_def)

lemma frontmatter_modified_example:
  "parse_frontmatter
     (''---'' @ [newline] @ ''modified: 2024-01-15'' @ [newline] @ ''---'' @ [newline] @ rest)
   = [(''modified'', PStr ''2024-01-15'')]"
proof -
  have close: "lazy_close [] (''modified: 2024-01-15'' @ [newline] @ ''---'' @ [newline] @ rest)
     = Some (''modified: 2024-01-15'', hd (ws_nl_rests rest @ [rest]))"
    by (simp add: startswith_def newline_def isspace_def)
  have "frontmatter_match
     (''---'' @ [newline] @ ''modified: 2024-01-15'' @ [newline] @ ''---'' @ [newline] @ rest)
     = Some (''modified: 2024-01-15'', hd (ws_nl_rests rest @ [rest]))"
    using close by (simp add: frontmatter_match_def startswith_def isspace_newline not_space_letter)
  moreover have "split_on newline ''modified: 2024-01-15'' = [''modified: 2024-01-15'']"
    by (simp add: newline_def)
  moreover have "fm_line [] ''modified: 2024-01-15'' = [(''modified'', PStr ''2024-01-15'')]"
    by code_simp
  ultimately show ?thesis
    by (simp add: parse_frontmatter_def)
qed

text \<open>
  Claim C6: for an eligible markdown file without a sidecar whose frontmatter has a
  \<open>modified\<close> key, the \<open>modified\<close> field of the entry is what
  \<open>parse_date_to_timestamp\<close> returns for the value, whatever the version-control
  timestamp was. An integer is returned unchanged; a string is tried against the three
  formats in their order, and the first that parses gives the result. A block with the
  line \<open>modified: 2024-01-15\<close> gives the string \<open>2024-01-15\<close> to convert.
\<close>

theorem C6_frontmatter_modified_overrides:
  assumes "lower (suffix_of (path_name p)) = ''.md''"
    and "\<not> is_hidden (relative_str p)"
    and "st_size w p = Inr sz"
    and "get_git_modified_time w p = Inr ts"
    and "\<not> file_exists w (keys_path p)"
    and "read_text w p = Inr content"
    and "map_of (parse_frontmatter content) ''modified'' = Some v"
    and "parse_date_to_timestamp w v = Inr m"
  shows "(\<exists>e. process_file w p = Inr (Some e) \<and> map_of e ''modified'' = Some m)
    \<and> parse_date_to_timestamp w (PInt i) = Inr (PInt i)
    \<and> (strptime_timestamp w s ''%Y-%m-%d'' = Inr t \<longrightarrow>
          parse_date_to_timestamp w (PStr s) = Inr (PInt t))
    \<and> (strptime_timestamp w s ''%Y-%m-%d'' = Inl x1 \<and> exn_isa x1 ValueError
          \<and> strptime_timestamp w s ''%Y-%m-%dT%H:%M:%S'' = Inr t \<longrightarrow>
          parse_date_to_timestamp w (PStr s) = Inr (PInt t))
    \<and> (strptime_timestamp w s ''%Y-%m-%d'' = Inl x1 \<and> exn_isa x1 ValueError
          \<and> strptime_timestamp w s ''%Y-%m-%dT%H:%M:%S'' = Inl x2 \<and> exn_isa x2 ValueError
          \<and> strptime_timestamp w s ''%Y/%m/%d'' = Inr t \<longrightarrow>
          parse_date_to_timestamp w (PStr s) = Inr (PInt t))
    \<and> (content = ''---'' @ [newline] @ ''modified: 2024-01-15'' @ [newline] @ ''---''
                    @ [newline] @ rest \<longrightarrow>
          v = PStr ''2024-01-15'' \<and> parse_date_to_timestamp w v = try_formats w ''2024-01-15'' formats)"
proof -
  let ?d = "default_entry (relative_str p) sz ts"
  have keys: "load_keys_file w p = Inr PNone"
    using assms(5) by (rule load_keys_file_absent)
  obtain e where body: "markdown_body w p ?d = (None, e)"
    and m: "map_of e ''modified'' = Some m"
    using markdown_body_modified [OF assms(6,7,8)] by blast
  have "process_file w p = map_sum id Some (markdown_branch w p ?d)"
    using process_file_eligible [OF _ assms(2,3,4) keys] assms(1) md_extension by simp
  with body have "process_file w p = Inr (Some e)"
    by (simp add: markdown_branch_def)
  with m have first: "\<exists>e. process_file w p = Inr (Some e) \<and> map_of e ''modified'' = Some m"
    by blast
  have example: "v = PStr ''2024-01-15'' \<and> parse_date_to_timestamp w v = try_formats w ''2024-01-15'' formats"
    if "content = ''---'' @ [newline] @ ''modified: 2024-01-15'' @ [newline] @ ''---''
                    @ [newline] @ rest"
  proof -
    from that assms(7) frontmatter_modified_example [of rest]
    have "v = PStr ''2024-01-15''" by simp
    then show ?thesis by simp
  qed
  from first example try_formats_order [of w s t x1 x2] show ?thesis
    by simp
qed

theorem C6_frontmatter_modified_witness:
  "get_git_modified_time (sample_world (Completed 0 ''1700000000'') None (Inr sample_post))
       [''post.MD''] = Inr (PInt 1700000000)
   \<and> map_of (parse_frontmatter sample_post) ''modified'' = Some (PStr ''2024-01-15'')
   \<and> parse_date_to_timestamp (sample_world (Completed 0 ''1700000000'') None (Inr sample_post))
         (PStr ''2024-01-15'') = Inr (PInt 1705276800)
   \<and> (\<exists>e. process_file (sample_world (Completed 0 ''1700000000'') None (Inr sample_post))
              [''post.MD''] = Inr (Some e)
          \<and> map_of e ''modified'' = Some (PInt 1705276800))"
proof -
  let ?w = "sample_world (Completed 0 ''1700000000'') None (Inr sample_post)"
  have md: "lower (suffix_of (path_name [''post.MD''])) = ''.md''"
    and vis: "\<not> is_hidden (relative_str [''post.MD''])"
    using sample_path by simp_all
  have sz: "st_size ?w [''post.MD''] = Inr 120"
    by (simp add: sample_world_def)
  have nokeys: "\<not> file_exists ?w (keys_path [''post.MD''])"
    by (simp add: sample_world_def)
  have rd: "read_text ?w [''post.MD''] = Inr sample_post"
    by (simp add: sample_world_def)
  have fm: "map_of (parse_frontmatter sample_post) ''modified'' = Some (PStr ''2024-01-15'')"
    by (simp add: sample_post_frontmatter)
  from C6_frontmatter_modified_overrides [OF md vis sz sample_git nokeys rd fm sample_date,
      THEN conjunct1] sample_git fm sample_date
  show ?thesis by blast
qed

section \<open>Results about sidecar titles\<close>

text \<open>
  Claim C7: for an eligible file whose sidecar loads to an object with a \<open>title\<close>
  key, the entry has that title, whatever reading the file itself would give.
\<close>

theorem C7_sidecar_title_wins:
  assumes "lower (suffix_of (path_name p)) \<in> EXTENSIONS"
    and "\<not> is_hidden (relative_str p)"
    and "st_size w p = Inr sz"
    and "get_git_modified_time w p = Inr ts"
    and "file_exists w (keys_path p)"
    and "json_load w (keys_path p) = Inr (PDict kvs)"
    and "map_of kvs ''title'' = Some t"
  shows "\<exists>e. process_file (w\<lparr>read_text := r\<rparr>) p = Inr (Some e) \<and> map_of e ''title'' = Some t"
proof -
  let ?w = "w\<lparr>read_text := r\<rparr>"
  from assms(7) have ne: "kvs \<noteq> []" by auto
  have keys: "load_keys_file ?w p = Inr (PDict kvs)"
    using assms(5,6) by (simp add: load_keys_file_def try_except_def)
  have git: "get_git_modified_time ?w p = Inr ts"
    using assms(4) by (simp add: get_git_modified_time_def)
  have sz: "st_size ?w p = Inr sz"
    using assms(3) by simp
  obtain e where e: "keys_branch (PDict kvs) (default_entry (relative_str p) sz ts) = Inr e"
    and title: "map_of e ''title'' = Some t"
    using keys_branch_dict [of kvs "default_entry (relative_str p) sz ts"] assms(7) by auto
  have "process_file ?w p = Inr (Some e)"
    using process_file_eligible [OF assms(1,2) sz git keys] ne e by simp
  with title show ?thesis by blast
qed

theorem C7_sidecar_title_witness:
  "file_exists (sample_world (Completed 1 ''err'') (Some (Inr (PDict [(''title'', PStr ''S'')])))
                  (Inl OSError)) (keys_path [''post.MD''])
   \<and> json_load (sample_world (Completed 1 ''err'') (Some (Inr (PDict [(''title'', PStr ''S'')])))
                  (Inl OSError)) (keys_path [''post.MD''])
       = Inr (PDict [(''title'', PStr ''S'')])
   \<and> (\<exists>e. process_file
              ((sample_world (Completed 1 ''err'') (Some (Inr (PDict [(''title'', PStr ''S'')])))
                  (Inl OSError))\<lparr>read_text := \<lambda>p. Inr sample_post\<rparr>) [''post.MD'']
            = Inr (Some e)
          \<and> map_of e ''title'' = Some (PStr ''S''))"
proof -
  let ?w = "sample_world (Completed 1 ''err'') (Some (Inr (PDict [(''title'', PStr ''S'')])))
              (Inl OSError)"
  have ext: "lower (suffix_of (path_name [''post.MD''])) \<in> EXTENSIONS"
    using sample_path md_extension by simp
  have vis: "\<not> is_hidden (relative_str [''post.MD''])"
    using sample_path by simp
  have kp: "keys_path [''post.MD''] = [''post.MD.keys'']"
    using sample_path by simp
  have sz: "st_size ?w [''post.MD''] = Inr 120"
    by (simp add: sample_world_def)
  have git: "get_git_modified_time ?w [''post.MD''] = Inr PNone"
    by (simp add: get_git_modified_time_def sample_world_def subprocess_run_check_def
          try_except_def)
  have ex: "file_exists ?w (keys_path [''post.MD''])"
    by (simp add: kp sample_world_def)
  have js: "json_load ?w (keys_path [''post.MD'']) = Inr (PDict [(''title'', PStr ''S'')])"
    by (simp add: sample_world_def)
  have t: "map_of [(''title'', PStr ''S'')] ''title'' = Some (PStr ''S'')"
    by simp
  from C7_sidecar_title_wins [OF ext vis sz git ex js t, of "\<lambda>p. Inr sample_post"] ex js
  show ?thesis by blast
qed

section \<open>Results about directory entries\<close>

lemma process_directory_meta_entry:
  "(process_directory_meta w d = Inr (Some e)) =
     (\<exists>kvs. load_directory_meta w d = Inr (PDict kvs) \<and> kvs \<noteq> []
        \<and> e = [(''path'', PStr (if relative_str d = ''.'' then [] else relative_str d)),
               (''title'', case map_of kvs ''title'' of
                             Some t \<Rightarrow> t
                           | None \<Rightarrow> PStr (if relative_str d = ''.'' \<or> relative_str d = []
                                            then ''Home'' else path_name d)),
               (''tags'', case map_of kvs ''tags'' of Some t \<Rightarrow> t | None \<Rightarrow> PList []),
               (''description'', case map_of kvs ''description'' of Some t \<Rightarrow> t | None \<Rightarrow> PNone),
               (''icon'', case map_of kvs ''icon'' of Some t \<Rightarrow> t | None \<Rightarrow> PNone),
               (''thumbnail'', case map_of kvs ''thumbnail'' of Some t \<Rightarrow> t | None \<Rightarrow> PNone)])"
proof (cases "load_directory_meta w d")
  case (Inl x)
  then show ?thesis by (simp add: process_directory_meta_def)
next
  case (Inr meta)
  then show ?thesis
    by (cases meta) (auto simp: process_directory_meta_def Let_def split: option.splits)
qed

lemma load_directory_meta_dict:
  "(load_directory_meta w d = Inr (PDict kvs) \<and> kvs \<noteq> []) =
     (file_exists w (meta_path d) \<and> json_load w (meta_path d) = Inr (PDict kvs) \<and> kvs \<noteq> [])"
  by (cases "json_load w (meta_path d)")
     (auto simp: load_directory_meta_def try_except_def split: if_splits)

lemma directory_entry_nonempty: "process_directory_meta w d = Inr (Some e) \<Longrightarrow> e \<noteq> []"
  by (auto simp: process_directory_meta_entry)

lemma collect_directories_set:
  "collect_directories w ds acc = Inr res \<Longrightarrow>
     set res = set acc \<union> {e. \<exists>d \<in> set ds. is_dir w d \<and> process_directory_meta w d = Inr (Some e)}"
proof (induction ds arbitrary: acc)
  case Nil
  then show ?case by simp
next
  case (Cons d ds)
  show ?case
  proof (cases "is_dir w d")
    case False
    with Cons show ?thesis by auto
  next
    case True
    show ?thesis
    proof (cases "process_directory_meta w d")
      case (Inl x)
      with True Cons.prems show ?thesis by simp
    next
      case (Inr r)
      show ?thesis
      proof (cases r)
        case None
        with Inr True Cons show ?thesis by auto
      next
        case (Some entry)
        with Inr have "entry \<noteq> []" by (simp add: directory_entry_nonempty)
        with Some Inr True Cons.prems
        have "collect_directories w ds (acc @ [entry]) = Inr res" by simp
        from Cons.IH [OF this] Some Inr True show ?thesis by auto
      qed
    qed
  qed
qed

lemma build_manifest_directories:
  assumes "build_manifest w = Inr (Some (PDict m))"
  shows "\<exists>dirs. map_of m ''directories'' = Some (PList (map PDict dirs))
     \<and> set dirs = {e. \<exists>d. (d = [] \<or> d \<in> set (rglob w) \<and> is_dir w d)
                          \<and> process_directory_meta w d = Inr (Some e)}"
proof -
  from assms obtain files directories root_entry where
    cd: "collect_directories w (sort (rglob w)) [] = Inr directories"
    and root: "process_directory_meta w [] = Inr root_entry"
    and m: "m = [(''files'', PList (map PDict files)),
                 (''directories'',
                    PList (map PDict
                      (case root_entry of
                         Some entry \<Rightarrow>
                           if truthy (PDict entry) then directories @ [entry] else directories
                       | None \<Rightarrow> directories)))]"
    by (auto simp: build_manifest_def split: if_splits sum.splits)
  let ?dirs = "case root_entry of
                 Some entry \<Rightarrow> if truthy (PDict entry) then directories @ [entry] else directories
               | None \<Rightarrow> directories"
  have "set directories = {e. \<exists>d \<in> set (rglob w). is_dir w d \<and> process_directory_meta w d = Inr (Some e)}"
    using collect_directories_set [OF cd] by simp
  moreover have "set ?dirs = set directories \<union> {e. process_directory_meta w [] = Inr (Some e)}"
    using root directory_entry_nonempty [of w "[]"] by (cases root_entry) auto
  ultimately have "set ?dirs = {e. \<exists>d. (d = [] \<or> d \<in> set (rglob w) \<and> is_dir w d)
                          \<and> process_directory_meta w d = Inr (Some e)}"
    by auto
  with m show ?thesis by (intro exI [of _ ?dirs]) simp
qed

text \<open>
  Claim C8: a directory has an entry exactly when its descriptor file exists and loads
  to a non-empty object. The entry of the content directory itself has the empty string
  as its path, and the title \<open>Home\<close> when the descriptor has no title. The
  directories of the manifest are the entries of the content directory and of the
  directories below it.
\<close>

theorem C8_directory_entries:
  "((\<exists>e. process_directory_meta w d = Inr (Some e)) =
      (file_exists w (meta_path d)
       \<and> (\<exists>kvs. json_load w (meta_path d) = Inr (PDict kvs) \<and> kvs \<noteq> [])))
   \<and> (process_directory_meta w [] = Inr (Some e0) \<longrightarrow>
        map_of e0 ''path'' = Some (PStr [])
        \<and> (\<forall>kvs. json_load w (meta_path []) = Inr (PDict kvs) \<and> map_of kvs ''title'' = None
              \<longrightarrow> map_of e0 ''title'' = Some (PStr ''Home'')))
   \<and> (build_manifest w = Inr (Some (PDict m)) \<longrightarrow>
        (\<exists>dirs. map_of m ''directories'' = Some (PList (map PDict dirs))
           \<and> set dirs = {e. \<exists>d. (d = [] \<or> d \<in> set (rglob w) \<and> is_dir w d)
                                \<and> process_directory_meta w d = Inr (Some e)}))"
proof (intro conjI impI)
  show "(\<exists>e. process_directory_meta w d = Inr (Some e)) =
      (file_exists w (meta_path d)
       \<and> (\<exists>kvs. json_load w (meta_path d) = Inr (PDict kvs) \<and> kvs \<noteq> []))"
    using load_directory_meta_dict [of w d] by (auto simp: process_directory_meta_entry)
next
  assume root: "process_directory_meta w [] = Inr (Some e0)"
  then obtain kvs0 where l: "load_directory_meta w [] = Inr (PDict kvs0)" and ne: "kvs0 \<noteq> []"
    and e0: "map_of e0 ''path'' = Some (PStr [])"
    and t0: "map_of e0 ''title'' =
               Some (case map_of kvs0 ''title'' of Some t \<Rightarrow> t | None \<Rightarrow> PStr ''Home'')"
    by (auto simp: process_directory_meta_entry relative_str_def)
  show "map_of e0 ''path'' = Some (PStr [])" by (rule e0)
  show "\<forall>kvs. json_load w (meta_path []) = Inr (PDict kvs) \<and> map_of kvs ''title'' = None
              \<longrightarrow> map_of e0 ''title'' = Some (PStr ''Home'')"
  proof (intro allI impI)
    fix kvs
    assume a: "json_load w (meta_path []) = Inr (PDict kvs) \<and> map_of kvs ''title'' = None"
    from l ne load_directory_meta_dict [of w "[]" kvs0]
    have "json_load w (meta_path []) = Inr (PDict kvs0)" by simp
    with a have "kvs0 = kvs" by simp
    with a t0 show "map_of e0 ''title'' = Some (PStr ''Home'')" by simp
  qed
next
  assume "build_manifest w = Inr (Some (PDict m))"
  then show "\<exists>dirs. map_of m ''directories'' = Some (PList (map PDict dirs))
           \<and> set dirs = {e. \<exists>d. (d = [] \<or> d \<in> set (rglob w) \<and> is_dir w d)
                                \<and> process_directory_meta w d = Inr (Some e)}"
    by (rule build_manifest_directories)
qed

theorem C8_directory_entries_witness:
  "file_exists site_world (meta_path [''notes''])
   \<and> json_load site_world (meta_path [''notes'']) = Inr (PDict [(''title'', PStr ''Notes'')])
   \<and> (\<exists>e. process_directory_meta site_world [''notes''] = Inr (Some e))
   \<and> \<not> file_exists site_world (meta_path [''img''])
   \<and> \<not> (\<exists>e. process_directory_meta site_world [''img''] = Inr (Some e))
   \<and> process_directory_meta site_world []
       = Inr (Some [(''path'', PStr []), (''title'', PStr ''Home''),
                    (''tags'', PList []), (''description'', PStr ''root''),
                    (''icon'', PNone), (''thumbnail'', PNone)])
   \<and> (\<exists>m dirs. build_manifest site_world = Inr (Some (PDict m))
         \<and> map_of m ''directories'' = Some (PList (map PDict dirs))
         \<and> set dirs = {e. \<exists>d. (d = [] \<or> d \<in> set (rglob site_world) \<and> is_dir site_world d)
                                \<and> process_directory_meta site_world d = Inr (Some e)})"
proof -
  have ex: "file_exists site_world (meta_path [''notes''])"
    by (simp add: site_world_def meta_path_def)
  have js: "json_load site_world (meta_path [''notes'']) = Inr (PDict [(''title'', PStr ''Notes'')])"
    by (simp add: site_world_def meta_path_def)
  have nex: "\<not> file_exists site_world (meta_path [''img''])"
    by (simp add: site_world_def meta_path_def)
  have a: "\<exists>e. process_directory_meta site_world [''notes''] = Inr (Some e)"
    using C8_directory_entries [where w = site_world and d = "[''notes'']", THEN conjunct1] ex js
    by simp
  have b: "\<not> (\<exists>e. process_directory_meta site_world [''img''] = Inr (Some e))"
    using C8_directory_entries [where w = site_world and d = "[''img'']", THEN conjunct1] nex
    by simp
  have root: "process_directory_meta site_world []
       = Inr (Some [(''path'', PStr []), (''title'', PStr ''Home''),
                    (''tags'', PList []), (''description'', PStr ''root''),
                    (''icon'', PNone), (''thumbnail'', PNone)])"
    by code_simp
  obtain m where m: "build_manifest site_world = Inr (Some (PDict m))"
    using site_manifest by blast
  have "\<exists>dirs. map_of m ''directories'' = Some (PList (map PDict dirs))
         \<and> set dirs = {e. \<exists>d. (d = [] \<or> d \<in> set (rglob site_world) \<and> is_dir site_world d)
                                \<and> process_directory_meta site_world d = Inr (Some e)}"
    by (rule C8_directory_entries [where w = site_world and m = m,
          THEN conjunct2, THEN conjunct2, THEN mp, OF m])
  then obtain dirs where dm: "map_of m ''directories'' = Some (PList (map PDict dirs))"
    and ds: "set dirs = {e. \<exists>d. (d = [] \<or> d \<in> set (rglob site_world) \<and> is_dir site_world d)
                                \<and> process_directory_meta site_world d = Inr (Some e)}"
    by (elim exE conjE)
  have c: "\<exists>m dirs. build_manifest site_world = Inr (Some (PDict m))
         \<and> map_of m ''directories'' = Some (PList (map PDict dirs))
         \<and> set dirs = {e. \<exists>d. (d = [] \<or> d \<in> set (rglob site_world) \<and> is_dir site_world d)
                                \<and> process_directory_meta site_world d = Inr (Some e)}"
    by (intro exI [of _ m] exI [of _ dirs] conjI m dm ds)
  from ex js nex a b root c show ?thesis
    by (intro conjI)
qed

section \<open>Results about the pipeline\<close>

lemma try_formats_rglob: "try_formats (w\<lparr>rglob := l\<rparr>) s fmts = try_formats w s fmts"
  by (induction fmts) (simp_all split: sum.splits)

lemma parse_date_rglob: "parse_date_to_timestamp (w\<lparr>rglob := l\<rparr>) v = parse_date_to_timestamp w v"
  by (cases v) (simp_all add: try_formats_rglob)

lemma git_time_rglob: "get_git_modified_time (w\<lparr>rglob := l\<rparr>) p = get_git_modified_time w p"
  by (simp add: get_git_modified_time_def)

lemma load_keys_file_rglob: "load_keys_file (w\<lparr>rglob := l\<rparr>) p = load_keys_file w p"
  by (simp add: load_keys_file_def)

lemma markdown_branch_rglob: "markdown_branch (w\<lparr>rglob := l\<rparr>) p e = markdown_branch w p e"
  by (simp add: markdown_branch_def markdown_body_def parse_date_rglob Let_def
        split: sum.splits option.splits)

lemma process_file_rglob: "process_file (w\<lparr>rglob := l\<rparr>) p = process_file w p"
  by (simp add: process_file_def git_time_rglob load_keys_file_rglob markdown_branch_rglob
        Let_def split: sum.splits)

lemma process_directory_meta_rglob:
  "process_directory_meta (w\<lparr>rglob := l\<rparr>) d = process_directory_meta w d"
  by (simp add: process_directory_meta_def load_directory_meta_def)

lemma collect_files_rglob: "collect_files (w\<lparr>rglob := l\<rparr>) ps acc = collect_files w ps acc"
  by (induction ps arbitrary: acc)
     (simp_all add: process_file_rglob split: sum.splits option.splits)

lemma collect_directories_rglob:
  "collect_directories (w\<lparr>rglob := l\<rparr>) ps acc = collect_directories w ps acc"
  by (induction ps arbitrary: acc)
     (simp_all add: process_directory_meta_rglob split: sum.splits option.splits)

lemma sort_same_mset:
  fixes xs ys :: "'a::linorder list"
  assumes "mset xs = mset ys"
  shows "sort xs = sort ys"
proof -
  have "mset (sort ys) = mset xs" using assms by simp
  moreover have "sorted (sort ys)" by simp
  ultimately show ?thesis by (rule properties_for_sort)
qed

lemma main_listing_order:
  assumes "mset listing = mset (rglob w)"
  shows "main (w\<lparr>rglob := listing\<rparr>) = main w"
proof -
  have "sort listing = sort (rglob w)"
    using assms by (rule sort_same_mset)
  then have "build_manifest (w\<lparr>rglob := listing\<rparr>) = build_manifest w"
    by (simp add: build_manifest_def collect_files_rglob collect_directories_rglob
          process_directory_meta_rglob split: sum.splits)
  then show ?thesis
    by (simp add: main_def)
qed


text \<open>
  Claim C9, as the code has it: two runs that see the same tree (the same paths, listed
  in any order, with the same files behind them), the same outcomes of the
  version-control queries and the same date conversion (the same local time zone) write
  the same text.
\<close>

theorem C9_manifest_deterministic:
  fixes w1 w2 :: world
  assumes "root_exists w1 = root_exists w2"
    and "mset (rglob w1) = mset (rglob w2)"
    and "is_file w1 = is_file w2"
    and "is_dir w1 = is_dir w2"
    and "file_exists w1 = file_exists w2"
    and "st_size w1 = st_size w2"
    and "git_log w1 = git_log w2"
    and "read_text w1 = read_text w2"
    and "json_load w1 = json_load w2"
    and "strptime_timestamp w1 = strptime_timestamp w2"
  shows "main w1 = main w2"
proof -
  have "w1 = w2\<lparr>rglob := rglob w1\<rparr>"
    using assms by (cases w1, cases w2) simp
  then have "main w1 = main (w2\<lparr>rglob := rglob w1\<rparr>)"
    by simp
  also have "\<dots> = main w2"
    using assms(2) by (rule main_listing_order)
  finally show ?thesis .
qed

theorem C9_manifest_deterministic_witness:
  "mset (rglob (site_world\<lparr>rglob := rev (rglob site_world)\<rparr>)) = mset (rglob site_world)
   \<and> rglob (site_world\<lparr>rglob := rev (rglob site_world)\<rparr>) \<noteq> rglob site_world
   \<and> strptime_timestamp (site_world\<lparr>rglob := rev (rglob site_world)\<rparr>)
       = strptime_timestamp site_world
   \<and> main (site_world\<lparr>rglob := rev (rglob site_world)\<rparr>) = main site_world
   \<and> (\<exists>out. main site_world = Inr (Some out))"
proof -
  let ?w = "site_world\<lparr>rglob := rev (rglob site_world)\<rparr>"
  have m: "mset (rglob ?w) = mset (rglob site_world)"
    by simp
  have d: "rglob ?w \<noteq> rglob site_world"
    by (simp add: site_world_def)
  have out: "\<exists>out. main site_world = Inr (Some out)"
    by (simp add: main_def site_manifest)
  have "main ?w = main site_world"
    by (rule C9_manifest_deterministic [OF _ m]) simp_all
  with m d out show ?thesis
    by simp
qed

text \<open>
  Claim C9 as stated fixes the tree and the version-control history only. A date in the
  frontmatter is converted at the local time of the machine: below, the two worlds
  differ in nothing but the time zone, and the \<open>modified\<close> fields differ, so the texts
  written differ.
\<close>

theorem C9_time_zone_counterexample:
  "root_exists east_world
     = root_exists (sample_world (Completed 0 ''1700000000'') None (Inr sample_post))
   \<and> rglob east_world = rglob (sample_world (Completed 0 ''1700000000'') None (Inr sample_post))
   \<and> is_file east_world = is_file (sample_world (Completed 0 ''1700000000'') None (Inr sample_post))
   \<and> is_dir east_world = is_dir (sample_world (Completed 0 ''1700000000'') None (Inr sample_post))
   \<and> file_exists east_world
       = file_exists (sample_world (Completed 0 ''1700000000'') None (Inr sample_post))
   \<and> st_size east_world = st_size (sample_world (Completed 0 ''1700000000'') None (Inr sample_post))
   \<and> git_log east_world = git_log (sample_world (Completed 0 ''1700000000'') None (Inr sample_post))
   \<and> read_text east_world
       = read_text (sample_world (Completed 0 ''1700000000'') None (Inr sample_post))
   \<and> json_load east_world
       = json_load (sample_world (Completed 0 ''1700000000'') None (Inr sample_post))
   \<and> process_file (sample_world (Completed 0 ''1700000000'') None (Inr sample_post)) [''post.MD'']
       = Inr (Some [(''path'', PStr ''post.MD''), (''title'', PStr ''X''),
                    (''size'', PInt 120), (''modified'', PInt 1705276800),
                    (''tags'', PList [PStr ''a'', PStr ''b''])])
   \<and> process_file east_world [''post.MD'']
       = Inr (Some [(''path'', PStr ''post.MD''), (''title'', PStr ''X''),
                    (''size'', PInt 120), (''modified'', PInt 1705244400),
                    (''tags'', PList [PStr ''a'', PStr ''b''])])
   \<and> main east_world \<noteq> main (sample_world (Completed 0 ''1700000000'') None (Inr sample_post))"
proof -
  have differ: "main east_world
      \<noteq> main (sample_world (Completed 0 ''1700000000'') None (Inr sample_post))"
    by code_simp
  have utc: "process_file (sample_world (Completed 0 ''1700000000'') None (Inr sample_post))
        [''post.MD'']
       = Inr (Some [(''path'', PStr ''post.MD''), (''title'', PStr ''X''),
                    (''size'', PInt 120), (''modified'', PInt 1705276800),
                    (''tags'', PList [PStr ''a'', PStr ''b''])])"
    by code_simp
  have east: "process_file east_world [''post.MD'']
       = Inr (Some [(''path'', PStr ''post.MD''), (''title'', PStr ''X''),
                    (''size'', PInt 120), (''modified'', PInt 1705244400),
                    (''tags'', PList [PStr ''a'', PStr ''b''])])"
    by code_simp
  from differ utc east show ?thesis
    by (simp add: east_world_def)
qed

section \<open>Results about extensions\<close>












end
